theory Spec2Isabelle
  imports Complex_Main "HOL-Library.Log_Nat"
begin

section \<open>Trigger generator: data model\<close>

text \<open>
  The development follows \<^verbatim>\<open>electric_stimulation/trigger_generator_backend.py\<close> and
  \<^verbatim>\<open>electric_stimulation/trigger_generator_gui.py\<close>.

  A Python float is a real number that double precision represents; every float operation
  is the exact operation followed by the rounding of section "Double-precision
  arithmetic". Python's unbounded integers are \<^typ>\<open>int\<close>. A Python \<^verbatim>\<open>str\<close> is a
  \<^typ>\<open>string\<close> whose characters are the code points below 256.
\<close>

subsection \<open>Exceptions\<close>

text \<open>
  Every exception the modelled code can meet is an instance of Python's \<^verbatim>\<open>Exception\<close>:
  numpy's \<^verbatim>\<open>ValueError\<close>, the \<^verbatim>\<open>ZeroDivisionError\<close> of a float modulo, the
  \<^verbatim>\<open>MemoryError\<close> of an array that cannot be allocated, and the error a driver call
  raises, which carries the driver's message.
\<close>

datatype py_error = ValueError | ZeroDivisionError | MemoryError | DAQError string

subsection \<open>The worker object\<close>

text \<open>The attributes \<^verbatim>\<open>DAQWorker.__init__\<close> stores; \<^verbatim>\<open>_stop_requested\<close> starts as False.\<close>

record DAQWorker =
  device :: string
  sampling_rate :: real
  trigger_duration :: real
  inter_trigger_interval :: real
  infinite :: bool
  nb_triggers :: int
  initial_trigger_delay :: real
  stop_requested :: bool

definition DAQWorker_init ::
  "string \<Rightarrow> real \<Rightarrow> real \<Rightarrow> real \<Rightarrow> bool \<Rightarrow> int \<Rightarrow> real \<Rightarrow> DAQWorker" where
  "DAQWorker_init dev sr td iti infi nb itd =
     \<lparr>device = dev, sampling_rate = sr, trigger_duration = td,
      inter_trigger_interval = iti, infinite = infi, nb_triggers = nb,
      initial_trigger_delay = itd, stop_requested = False\<rparr>"

text \<open>
  The parameters the specification calls valid (its data model): a positive sampling rate,
  a positive active duration, a non-negative interval and initial delay, and a positive
  count in finite mode. The parameter form of the window only produces such values.
\<close>

definition valid_params :: "DAQWorker \<Rightarrow> bool" where
  "valid_params w \<longleftrightarrow>
     0 < sampling_rate w \<and> 0 < trigger_duration w \<and> 0 \<le> inter_trigger_interval w \<and>
     0 \<le> initial_trigger_delay w \<and> (\<not> infinite w \<longrightarrow> 0 < nb_triggers w)"

section \<open>Channel path\<close>

text \<open>
  \<^verbatim>\<open>str.strip()\<close> without argument removes leading and trailing whitespace; below 256 the
  whitespace code points are 9 to 13, 28 to 32, 133 and 160.
\<close>

definition isspace :: "char \<Rightarrow> bool" where
  "isspace c \<longleftrightarrow> (of_char c :: nat) \<in> {9, 10, 11, 12, 13, 28, 29, 30, 31, 32, 133, 160}"

definition strip :: "string \<Rightarrow> string" where
  "strip s = rev (dropWhile isspace (rev (dropWhile isspace s)))"

text \<open>\<^verbatim>\<open>a or b\<close> on strings: the empty string is falsy.\<close>

definition str_or :: "string \<Rightarrow> string \<Rightarrow> string" where
  "str_or a b = (if a \<noteq> [] then a else b)"

definition build_channel_path :: "string \<Rightarrow> string \<Rightarrow> string" where
  "build_channel_path device_str channel_str =
     (let dev = str_or (strip device_str) ''Dev2'';
          ch = str_or (strip channel_str) ''ao0''
      in if ch \<noteq> [] then dev @ ''/'' @ ch else dev)"

section \<open>Double-precision arithmetic\<close>

text \<open>
  IEEE 754 binary64 with the default rounding: a result is rounded to 53 significant bits,
  to the nearest representable number, a tie going to the even significand. The exponent
  range is not bounded: overflow, subnormal numbers, infinities and NaN are not modelled.
\<close>

definition round_half_even :: "real \<Rightarrow> int" where
  "round_half_even x =
     (let f = \<lfloor>x\<rfloor>; d = x - of_int f
      in if d < 1 / 2 then f else if 1 / 2 < d then f + 1 else if even f then f else f + 1)"

text \<open>The binary exponent of a non-zero number: the \<open>k\<close> with \<open>2^k \<le> |x| < 2^(k+1)\<close>.\<close>

definition exponent :: "real \<Rightarrow> int" where
  "exponent x =
     (if 1 \<le> \<bar>x\<bar> then bitlen \<lfloor>\<bar>x\<bar>\<rfloor> - 1 else - bitlen (\<lceil>1 / \<bar>x\<bar>\<rceil> - 1))"

text \<open>Rounding to double precision.\<close>

definition fl :: "real \<Rightarrow> real" where
  "fl x =
     (if x = 0 then 0
      else of_int (round_half_even (x / 2 powi (exponent x - 52))) * 2 powi (exponent x - 52))"

text \<open>Float addition, subtraction and multiplication, and \<^verbatim>\<open>float(n)\<close> of an integer.\<close>

definition fadd :: "real \<Rightarrow> real \<Rightarrow> real" where
  "fadd a b = fl (a + b)"

definition fsub :: "real \<Rightarrow> real \<Rightarrow> real" where
  "fsub a b = fl (a - b)"

definition fmul :: "real \<Rightarrow> real \<Rightarrow> real" where
  "fmul a b = fl (a * b)"

definition float_of_int :: "int \<Rightarrow> real" where
  "float_of_int n = fl (of_int n)"

section \<open>Sample counts and buffers\<close>

text \<open>\<^verbatim>\<open>int(x)\<close> on a float truncates toward zero.\<close>

definition py_int :: "real \<Rightarrow> int" where
  "py_int x = (if 0 \<le> x then \<lfloor>x\<rfloor> else \<lceil>x\<rceil>)"

text \<open>
  Lines 69 to 72: each count is \<^verbatim>\<open>int\<close> of the float product of a duration and the
  sampling rate.
\<close>

definition initial_delay_samples :: "DAQWorker \<Rightarrow> int" where
  "initial_delay_samples w = py_int (fmul (initial_trigger_delay w) (sampling_rate w))"

definition trigger_samples :: "DAQWorker \<Rightarrow> int" where
  "trigger_samples w = py_int (fmul (trigger_duration w) (sampling_rate w))"

definition interval_samples :: "DAQWorker \<Rightarrow> int" where
  "interval_samples w = py_int (fmul (inter_trigger_interval w) (sampling_rate w))"

definition samples_per_cycle :: "DAQWorker \<Rightarrow> int" where
  "samples_per_cycle w = trigger_samples w + interval_samples w"

text \<open>
  What the specification asks of a sample count, in its own words: round-to-nearest of
  \<^verbatim>\<open>duration * sampling_rate\<close>. An integer is a nearest one when it is at most one half
  away (at a tie either neighbour is).
\<close>

definition spec_round_to_nearest :: "int \<Rightarrow> real \<Rightarrow> bool" where
  "spec_round_to_nearest n x \<longleftrightarrow> \<bar>of_int n - x\<bar> \<le> 1 / 2"

text \<open>
  Whether an array can be allocated depends on the machine: the numpy functions take a
  predicate that says for which numbers of samples an allocation succeeds.

  \<^verbatim>\<open>np.zeros(n)\<close> raises ValueError for a negative length and MemoryError when the array
  cannot be allocated.
\<close>

definition np_zeros :: "(nat \<Rightarrow> bool) \<Rightarrow> int \<Rightarrow> py_error + real list" where
  "np_zeros can_alloc n =
     (if n < 0 then Inl ValueError
      else if \<not> can_alloc (nat n) then Inl MemoryError
      else Inr (replicate (nat n) 0))"

text \<open>
  \<^verbatim>\<open>a[:k] = v\<close>: a negative bound counts from the end, and the bound is clipped to the
  array.
\<close>

definition assign_prefix :: "int \<Rightarrow> real \<Rightarrow> real list \<Rightarrow> real list" where
  "assign_prefix k v a =
     (let n = int (length a);
          stop = (if k < 0 then max (k + n) 0 else min k n)
      in replicate (nat stop) v @ drop (nat stop) a)"

text \<open>
  \<^verbatim>\<open>Sig_cycle = np.zeros(samples_per_cycle); Sig_cycle[:trigger_samples] = 2.0\<close>
\<close>

definition Sig_cycle :: "(nat \<Rightarrow> bool) \<Rightarrow> DAQWorker \<Rightarrow> py_error + real list" where
  "Sig_cycle can_alloc w =
     (case np_zeros can_alloc (samples_per_cycle w) of
        Inl e \<Rightarrow> Inl e
      | Inr z \<Rightarrow> Inr (assign_prefix (trigger_samples w) 2 z))"

text \<open>
  \<^verbatim>\<open>np.tile(a, reps)\<close> on a one-dimensional array: an empty array stays empty whatever
  the count; otherwise a negative count raises ValueError, and the result of
  \<^verbatim>\<open>reps * len(a)\<close> samples is allocated.
\<close>

definition np_tile :: "(nat \<Rightarrow> bool) \<Rightarrow> real list \<Rightarrow> int \<Rightarrow> py_error + real list" where
  "np_tile can_alloc a reps =
     (if a = [] then Inr []
      else if reps < 0 then Inl ValueError
      else if \<not> can_alloc (nat reps * length a) then Inl MemoryError
      else Inr (concat (replicate (nat reps) a)))"

text \<open>\<^verbatim>\<open>np.concatenate([a, b])\<close> allocates the joined array.\<close>

definition np_concatenate ::
  "(nat \<Rightarrow> bool) \<Rightarrow> real list \<Rightarrow> real list \<Rightarrow> py_error + real list" where
  "np_concatenate can_alloc a b =
     (if \<not> can_alloc (length a + length b) then Inl MemoryError else Inr (a @ b))"

text \<open>
  Finite mode:
  \<^verbatim>\<open>data = np.concatenate([np.zeros(initial_delay_samples), np.tile(Sig_cycle, nb_triggers)])\<close>
\<close>

definition finite_data :: "(nat \<Rightarrow> bool) \<Rightarrow> DAQWorker \<Rightarrow> real list \<Rightarrow> py_error + real list" where
  "finite_data can_alloc w cyc =
     (case np_zeros can_alloc (initial_delay_samples w) of
        Inl e \<Rightarrow> Inl e
      | Inr z \<Rightarrow>
          (case np_tile can_alloc cyc (nb_triggers w) of
             Inl e \<Rightarrow> Inl e
           | Inr tiled \<Rightarrow> np_concatenate can_alloc z tiled))"

section \<open>State indicator of the window\<close>

text \<open>
  The dictionary \<^verbatim>\<open>worker_params\<close> that \<^verbatim>\<open>start_generation\<close> stores: it always has
  these eight keys, so it is a record (the prefix keeps the field names apart from the
  worker's).
\<close>

record worker_params =
  p_device :: string
  p_channel :: string
  p_sampling_rate :: real
  p_initial_trigger_delay :: real
  p_trigger :: real
  p_interval :: real
  p_infinite :: bool
  p_nb_triggers :: int

text \<open>
  \<^verbatim>\<open>x % y\<close> on floats: a zero \<^verbatim>\<open>y\<close> raises; otherwise C's \<^verbatim>\<open>fmod\<close>, which is exact and
  has the sign of \<^verbatim>\<open>x\<close>, and when its non-zero result has not the sign of \<^verbatim>\<open>y\<close>, the
  float sum of it and \<^verbatim>\<open>y\<close>.
\<close>

definition c_fmod :: "real \<Rightarrow> real \<Rightarrow> real" where
  "c_fmod x y = x - y * of_int (py_int (x / y))"

definition py_fmod :: "real \<Rightarrow> real \<Rightarrow> py_error + real" where
  "py_fmod x y =
     (if y = 0 then Inl ZeroDivisionError
      else (let m = c_fmod x y
            in Inr (if m \<noteq> 0 \<and> ((y < 0) \<noteq> (m < 0)) then fadd m y else m)))"

text \<open>
  Lines 304 to 312: the label and the remaining time of the trigger or interval phase.
\<close>

definition trigger_or_interval :: "real \<Rightarrow> real \<Rightarrow> real \<Rightarrow> string \<times> real option" where
  "trigger_or_interval trigger cycle_duration pos_in_cycle =
     (if pos_in_cycle < trigger then (''Trigger (2V)'', Some (fsub trigger pos_in_cycle))
      else (''0V (interval)'', Some (fsub cycle_duration pos_in_cycle)))"

text \<open>
  \<^verbatim>\<open>update_state_indicator\<close> for a running generation (\<^verbatim>\<open>state_start_time\<close> and
  \<^verbatim>\<open>worker_params\<close> are set), as a function of the parameters and of
  \<^verbatim>\<open>elapsed = time.time() - state_start_time\<close>. The result is the text of the state label
  and the remaining time handed to \<^verbatim>\<open>format_countdown\<close>; \<open>None\<close> stands for the dash
  shown with "Done".
\<close>

definition update_state_indicator ::
  "worker_params \<Rightarrow> real \<Rightarrow> py_error + (string \<times> real option)" where
  "update_state_indicator p elapsed =
     (let initial_delay = p_initial_trigger_delay p;
          trigger = p_trigger p;
          interval = p_interval p;
          cycle_duration = fadd trigger interval
      in if elapsed < initial_delay then Inr (''(0V)'', Some (fsub initial_delay elapsed))
         else
           (let cycle_time = fsub elapsed initial_delay
            in if p_infinite p then
                 (case py_fmod cycle_time cycle_duration of
                    Inl e \<Rightarrow> Inl e
                  | Inr pos_in_cycle \<Rightarrow>
                      Inr (trigger_or_interval trigger cycle_duration pos_in_cycle))
               else
                 (let total_cycles = fmul (float_of_int (p_nb_triggers p)) cycle_duration
                  in if cycle_time \<ge> total_cycles then Inr (''Done'', None)
                     else
                       (case py_fmod cycle_time cycle_duration of
                          Inl e \<Rightarrow> Inl e
                        | Inr pos_in_cycle \<Rightarrow>
                            Inr (trigger_or_interval trigger cycle_duration pos_in_cycle)))))"

text \<open>
  The three labels the method writes: the state text, the remaining time shown by the time
  label (\<open>None\<close> for the dash) and the elapsed time shown by the total-time label (\<open>None\<close>
  for the text "0:00" that \<^verbatim>\<open>on_generation_finished\<close> restores).
\<close>

record indicator_labels =
  state_label :: string
  time_label :: "real option"
  time_total_label :: "real option"

text \<open>
  The method itself, for the clock value \<open>now\<close> returned by \<^verbatim>\<open>time.time()\<close>: it returns at
  once when the start time or the parameters are not set; otherwise it writes the total
  time and then the two labels of the phase. A ZeroDivisionError leaves the method after
  the total time is written.
\<close>

definition update_state_indicator_labels ::
  "real option \<Rightarrow> worker_params option \<Rightarrow> real \<Rightarrow> indicator_labels
     \<Rightarrow> indicator_labels \<times> py_error option" where
  "update_state_indicator_labels start wp now labels =
     (case (start, wp) of
        (Some state_start_time, Some p) \<Rightarrow>
          (let elapsed = fsub now state_start_time;
               labels1 = labels\<lparr>time_total_label := Some elapsed\<rparr>
           in case update_state_indicator p elapsed of
                Inl e \<Rightarrow> (labels1, Some e)
              | Inr (text, countdown) \<Rightarrow>
                  (labels1\<lparr>state_label := text, time_label := countdown\<rparr>, None))
      | _ \<Rightarrow> (labels, None))"

section \<open>Stop request\<close>

text \<open>\<^verbatim>\<open>DAQWorker.stop\<close>\<close>

definition stop :: "DAQWorker \<Rightarrow> DAQWorker" where
  "stop w = w\<lparr>stop_requested := True\<rparr>"

text \<open>
  The attributes of the window that the stop button's handler can see. \<^verbatim>\<open>worker\<close> is
  \<open>None\<close> until the first start and keeps the last worker after a run has finished.
\<close>

record TriggerGeneratorWindow =
  worker :: "DAQWorker option"
  state_start_time :: "real option"
  worker_params :: "worker_params option"

text \<open>\<^verbatim>\<open>stop_generation\<close>: \<^verbatim>\<open>if self.worker: self.worker.stop()\<close>\<close>

definition stop_generation :: "TriggerGeneratorWindow \<Rightarrow> TriggerGeneratorWindow" where
  "stop_generation g =
     (case worker g of
        None \<Rightarrow> g
      | Some w \<Rightarrow> g\<lparr>worker := Some (stop w)\<rparr>)"

section \<open>Saving and loading parameters\<close>

text \<open>The JSON values of a parameter file; Python keeps integers and floats apart.\<close>

datatype json = JStr string | JInt int | JFloat real | JBool bool | JNull

text \<open>
  The dictionary \<^verbatim>\<open>save_params_to_json\<close> dumps, in insertion order. Every
  \<^verbatim>\<open>p.get(key, default)\<close> finds its key, since \<^verbatim>\<open>worker_params\<close> always has all of them.
  The rounded duration \<^verbatim>\<open>round(duration_seconds, 2)\<close> and the two formatted times are
  taken as arguments.
\<close>

definition save_params_to_json ::
  "worker_params option \<Rightarrow> real \<Rightarrow> string \<Rightarrow> string \<Rightarrow> (string \<times> json) list option" where
  "save_params_to_json wp duree heure_debut heure_fin =
     (case wp of
        None \<Rightarrow> None
      | Some p \<Rightarrow> Some
          [(''device'', JStr (p_device p)),
           (''channel'', JStr (p_channel p)),
           (''sampling_rate'', JFloat (p_sampling_rate p)),
           (''trigger_duration'', JFloat (p_trigger p)),
           (''inter_trigger_interval'', JFloat (p_interval p)),
           (''initial_trigger_delay'', JFloat (p_initial_trigger_delay p)),
           (''infinite'', JBool (p_infinite p)),
           (''nb_triggers'', JInt (p_nb_triggers p)),
           (''duree_secondes'', JFloat duree),
           (''heure_debut'', JStr heure_debut),
           (''heure_fin'', JStr heure_fin)])"

text \<open>\<^verbatim>\<open>data.get(key, default)\<close>\<close>

definition dict_get :: "(string \<rightharpoonup> json) \<Rightarrow> string \<Rightarrow> json \<Rightarrow> json" where
  "dict_get data k dflt = (case data k of Some v \<Rightarrow> v | None \<Rightarrow> dflt)"

text \<open>
  The values \<^verbatim>\<open>load_params_from_json\<close> hands to the eight widgets (lines 375 to 382).
  What a widget does with a value (clipping to its range, refusing a wrong type) is Qt's
  and not modelled.
\<close>

record loaded_params =
  device_edit :: json
  channel_edit :: json
  sampling_rate_spin :: json
  trigger_duration_spin :: json
  inter_trigger_spin :: json
  initial_trigger_delay_spin :: json
  infinite_check :: json
  nb_triggers_spin :: json

definition load_params_from_json :: "(string \<rightharpoonup> json) \<Rightarrow> loaded_params" where
  "load_params_from_json data =
     \<lparr>device_edit = dict_get data ''device'' (JStr ''Dev2''),
      channel_edit = dict_get data ''channel'' (JStr ''ao0''),
      sampling_rate_spin = dict_get data ''sampling_rate'' (JInt 1000),
      trigger_duration_spin =
        dict_get data ''trigger_duration'' (dict_get data ''pulse_duration'' (JFloat (2 / 10))),
      inter_trigger_spin =
        dict_get data ''inter_trigger_interval'' (dict_get data ''inter_pulse_interval'' (JInt 20)),
      initial_trigger_delay_spin = dict_get data ''initial_trigger_delay'' (JInt 5),
      infinite_check = dict_get data ''infinite'' (JBool True),
      nb_triggers_spin = dict_get data ''nb_triggers'' (dict_get data ''nb_pulses'' (JInt 5))\<rparr>"

text \<open>The field names the specification lists for the persisted record.\<close>

definition spec_fields :: "string list" where
  "spec_fields =
     [''device'', ''channel'', ''sampling_rate'', ''trigger_duration'',
      ''inter_trigger_interval'', ''initial_trigger_delay'', ''infinite'', ''nb_triggers'',
      ''duration_seconds'', ''start_time'', ''end_time'']"

section \<open>The worker's run\<close>

subsection \<open>Driver, signals and environment\<close>

text \<open>
  \<^verbatim>\<open>DAQWorker.run\<close> talks to the NI-DAQmx driver through at most three task objects, named
  here after the variables that hold them: \<^verbatim>\<open>t_delay\<close>, \<^verbatim>\<open>t\<close> and \<^verbatim>\<open>t_zero\<close>.
\<close>

datatype task = T_delay | T_main | T_zero

datatype samps_mode = DAQmx_Val_FiniteSamps | DAQmx_Val_ContSamps

text \<open>
  The driver calls with the arguments that vary: \<open>Task\<close> is the constructor
  \<^verbatim>\<open>nidaq.Task()\<close>; \<open>CfgSampClkTiming\<close> carries the rate, the mode and the sample count;
  \<open>WriteAnalogF64\<close> the count, the autostart flag and the buffer; \<open>WaitUntilTaskDone\<close> the
  timeout; \<open>WriteAnalogScalarF64\<close> the voltage.
\<close>

datatype driver_call =
    Task
  | CreateAOVoltageChan string
  | CfgSampClkTiming real samps_mode int
  | WriteAnalogF64 int bool "real list"
  | StartTask
  | WaitUntilTaskDone real
  | StopTask
  | ClearTask
  | WriteAnalogScalarF64 real

text \<open>The argument of \<^verbatim>\<open>error.emit\<close>: a literal text, or \<^verbatim>\<open>str(e)\<close> of a caught exception.\<close>

datatype payload = Text string | Str py_error

text \<open>
  What a run does, in order: driver calls, \<^verbatim>\<open>time.sleep\<close> with its duration, and the three
  signals.
\<close>

datatype event =
    Call task driver_call
  | Sleep real
  | Emit_started
  | Emit_error payload
  | Emit_finished

text \<open>
  What the run cannot decide itself. \<open>DAQ_AVAILABLE\<close> is the module's flag.
  \<open>has_WriteAnalogScalarF64\<close> is the result of the \<^verbatim>\<open>hasattr\<close> test on \<^verbatim>\<open>t_zero\<close>.
  \<open>raises i = Some m\<close> says that the driver call made as the run's event number \<open>i\<close>
  (counting from 0) raises an exception with message \<open>m\<close>; for \<^verbatim>\<open>WaitUntilTaskDone\<close> not
  raising means that the task is done. \<open>stop_at = Some n\<close> says that the main thread calls
  \<^verbatim>\<open>stop()\<close> when the run has made \<open>n\<close> events, \<open>None\<close> that it never does.
  \<open>can_allocate n\<close> says that numpy can allocate an array of \<open>n\<close> samples.
\<close>

record environment =
  DAQ_AVAILABLE :: bool
  has_WriteAnalogScalarF64 :: bool
  raises :: "nat \<Rightarrow> string option"
  stop_at :: "nat option"
  can_allocate :: "nat \<Rightarrow> bool"

text \<open>
  Reading \<^verbatim>\<open>self._stop_requested\<close> after the events \<open>tr\<close>: set already when the run began,
  or set by the main thread since.
\<close>

definition read_stop_requested :: "environment \<Rightarrow> DAQWorker \<Rightarrow> event list \<Rightarrow> bool" where
  "read_stop_requested env w tr \<longleftrightarrow>
     stop_requested w \<or> (case stop_at env of None \<Rightarrow> False | Some n \<Rightarrow> n \<le> length tr)"

text \<open>One driver call: the event is recorded, and the call returns or raises.\<close>

definition call ::
  "environment \<Rightarrow> task \<Rightarrow> driver_call \<Rightarrow> event list \<Rightarrow> event list \<times> py_error option" where
  "call env tk c tr = (tr @ [Call tk c], map_option DAQError (raises env (length tr)))"

text \<open>Consecutive calls on one task: the first that raises ends the sequence.\<close>

fun calls ::
  "environment \<Rightarrow> task \<Rightarrow> driver_call list \<Rightarrow> event list \<Rightarrow> event list \<times> py_error option" where
  "calls env tk [] tr = (tr, None)"
| "calls env tk (c # cs) tr =
     (case call env tk c tr of
        (tr', Some e) \<Rightarrow> (tr', Some e)
      | (tr', None) \<Rightarrow> calls env tk cs tr')"

subsection \<open>The try block\<close>

text \<open>
  Creating a task and starting a playback on it: \<^verbatim>\<open>Task()\<close>, \<^verbatim>\<open>CreateAOVoltageChan\<close>,
  \<^verbatim>\<open>CfgSampClkTiming\<close>, \<^verbatim>\<open>WriteAnalogF64\<close>, \<^verbatim>\<open>StartTask\<close> (lines 85 to 93, 109 to 117, 120
  to 128, 136 to 144). The buffer is an argument of \<^verbatim>\<open>WriteAnalogF64\<close>: where the source
  builds it in the argument list (line 92), building it can raise after the clock is
  configured. The boolean says whether the constructor returned, that is whether the
  variable was assigned.
\<close>

definition start_playback ::
  "environment \<Rightarrow> DAQWorker \<Rightarrow> task \<Rightarrow> samps_mode \<Rightarrow> int \<Rightarrow> py_error + real list
     \<Rightarrow> event list \<Rightarrow> event list \<times> bool \<times> py_error option" where
  "start_playback env w tk mode n buf tr =
     (case call env tk Task tr of
        (tr1, Some e) \<Rightarrow> (tr1, False, Some e)
      | (tr1, None) \<Rightarrow>
          (case calls env tk
                  [CreateAOVoltageChan (device w), CfgSampClkTiming (sampling_rate w) mode n]
                  tr1 of
             (tr2, Some e) \<Rightarrow> (tr2, True, Some e)
           | (tr2, None) \<Rightarrow>
               (case buf of
                  Inl e \<Rightarrow> (tr2, True, Some e)
                | Inr b \<Rightarrow>
                    (case calls env tk [WriteAnalogF64 n False b, StartTask] tr2 of
                       (tr3, r) \<Rightarrow> (tr3, True, r)))))"

text \<open>
  The polling loop of lines 97 to 102 and 160 to 165: while no stop is requested and
  \<^verbatim>\<open>elapsed < timeout\<close>, wait one second for the task; leave when the wait returns, and
  add 1.0 to \<^verbatim>\<open>elapsed\<close> when it raises. The float counter stops growing at \<open>2^53\<close>, so the
  loop need not end: \<open>None\<close>.
\<close>

partial_function (option) wait_done ::
  "environment \<Rightarrow> DAQWorker \<Rightarrow> task \<Rightarrow> real \<Rightarrow> real \<Rightarrow> event list \<Rightarrow> event list option" where
  "wait_done env w tk timeout elapsed tr =
     (if \<not> read_stop_requested env w tr \<and> elapsed < timeout then
        (if raises env (length tr) = None then Some (tr @ [Call tk (WaitUntilTaskDone 1)])
         else wait_done env w tk timeout (fadd elapsed 1) (tr @ [Call tk (WaitUntilTaskDone 1)]))
      else Some tr)"

text \<open>
  The loop of lines 155 and 156: sleep a tenth of a second until a stop is requested. It
  does not return when no stop is ever requested: \<open>None\<close>.
\<close>

partial_function (option) sleep_until_stop ::
  "environment \<Rightarrow> DAQWorker \<Rightarrow> event list \<Rightarrow> event list option" where
  "sleep_until_stop env w tr =
     (if read_stop_requested env w tr then Some tr
      else sleep_until_stop env w (tr @ [Sleep (1 / 10)]))"

text \<open>
  The local variable \<^verbatim>\<open>t\<close>: not yet assigned (before line 79), or assigned \<^verbatim>\<open>None\<close> or a
  task.
\<close>

datatype t_var = Unbound | Bound "task option"

text \<open>\<^verbatim>\<open>t = nidaq.Task()\<close> followed by the playback calls on \<^verbatim>\<open>t\<close>.\<close>

definition start_main ::
  "environment \<Rightarrow> DAQWorker \<Rightarrow> samps_mode \<Rightarrow> int \<Rightarrow> real list \<Rightarrow> event list
     \<Rightarrow> event list \<times> t_var \<times> py_error option" where
  "start_main env w mode n buf tr =
     (case start_playback env w T_main mode n (Inr buf) tr of
        (tr', assigned, r) \<Rightarrow> (tr', Bound (if assigned then Some T_main else None), r))"

text \<open>The two timeouts, as the source computes them (lines 95 and 158).\<close>

definition delay_timeout :: "DAQWorker \<Rightarrow> real" where
  "delay_timeout w = fadd (initial_trigger_delay w) 5"

definition main_timeout :: "DAQWorker \<Rightarrow> real" where
  "main_timeout w =
     fadd (fadd (initial_trigger_delay w)
             (fmul (float_of_int (nb_triggers w))
                (fadd (inter_trigger_interval w) (trigger_duration w))))
       10"

text \<open>
  Lines 80 to 144, after \<^verbatim>\<open>t = None\<close>: the initial delay of infinite mode and the start of
  the main playback. The result is the events, the value of \<^verbatim>\<open>t\<close> and the exception
  raised, if any; \<open>None\<close> when the polling loop of the delay does not end.
\<close>

definition start_output ::
  "environment \<Rightarrow> DAQWorker \<Rightarrow> real list \<Rightarrow> event list
     \<Rightarrow> (event list \<times> t_var \<times> py_error option) option" where
  "start_output env w cyc tr =
     (if infinite w then
        (if initial_delay_samples w > 0 then
           (case start_playback env w T_delay DAQmx_Val_FiniteSamps (initial_delay_samples w)
                   (np_zeros (can_allocate env) (initial_delay_samples w))
                   (tr @ [Emit_started]) of
              (tr1, _, Some e) \<Rightarrow> Some (tr1, Bound None, Some e)
            | (tr1, _, None) \<Rightarrow>
                (case wait_done env w T_delay (delay_timeout w) 0 tr1 of
                   None \<Rightarrow> None
                 | Some tr2 \<Rightarrow>
                     (case calls env T_delay [StopTask, ClearTask] tr2 of
                        (tr3, Some e) \<Rightarrow> Some (tr3, Bound None, Some e)
                      | (tr3, None) \<Rightarrow>
                          if read_stop_requested env w tr3 then Some (tr3, Bound None, None)
                          else Some (start_main env w DAQmx_Val_ContSamps
                                       (samples_per_cycle w) cyc tr3))))
         else Some (start_main env w DAQmx_Val_ContSamps (samples_per_cycle w) cyc tr))
      else
        (case finite_data (can_allocate env) w cyc of
           Inl e \<Rightarrow> Some (tr, Bound None, Some e)
         | Inr data \<Rightarrow>
             Some (start_main env w DAQmx_Val_FiniteSamps (int (length data)) data tr)))"

text \<open>
  Lines 146 to 168: the \<^verbatim>\<open>started\<close> signal where it was not yet emitted, then, when \<^verbatim>\<open>t\<close>
  is a task, the wait for the stop request or the completion, and \<^verbatim>\<open>StopTask\<close>,
  \<^verbatim>\<open>ClearTask\<close>.
\<close>

definition finish_output ::
  "environment \<Rightarrow> DAQWorker \<Rightarrow> t_var \<Rightarrow> event list \<Rightarrow> (event list \<times> py_error option) option" where
  "finish_output env w t tr =
     (let tr1 = (if infinite w \<and> initial_delay_samples w = 0 then tr @ [Emit_started]
                 else if \<not> infinite w then tr @ [Emit_started]
                 else tr)
      in case t of
           Bound (Some tk) \<Rightarrow>
             (case (if infinite w then sleep_until_stop env w tr1
                    else wait_done env w tk (main_timeout w) 0 tr1) of
                None \<Rightarrow> None
              | Some tr2 \<Rightarrow> Some (calls env tk [StopTask, ClearTask] tr2))
         | _ \<Rightarrow> Some (tr1, None))"

text \<open>
  The whole try block, from no events: the events, the value of \<^verbatim>\<open>t\<close> when the block is
  left, and the exception that leaves it, if any. Without the driver the block emits the
  error signal and returns at once.
\<close>

definition try_block ::
  "environment \<Rightarrow> DAQWorker \<Rightarrow> (event list \<times> t_var \<times> py_error option) option" where
  "try_block env w =
     (if \<not> DAQ_AVAILABLE env then
        Some ([Emit_error (Text ''PyDAQmx is not installed.'')], Unbound, None)
      else
        (case Sig_cycle (can_allocate env) w of
           Inl e \<Rightarrow> Some ([], Unbound, Some e)
         | Inr cyc \<Rightarrow>
             (case start_output env w cyc [] of
                None \<Rightarrow> None
              | Some (tr, t, Some e) \<Rightarrow> Some (tr, t, Some e)
              | Some (tr, t, None) \<Rightarrow>
                  (case finish_output env w t tr of
                     None \<Rightarrow> None
                   | Some (tr', r) \<Rightarrow> Some (tr', t, r)))))"

subsection \<open>The finally block\<close>

text \<open>
  Lines 176 to 187: when \<^verbatim>\<open>t\<close> is a task, \<^verbatim>\<open>StopTask\<close> and \<^verbatim>\<open>ClearTask\<close>, each with its
  exception swallowed; an unassigned \<^verbatim>\<open>t\<close> raises NameError, which is swallowed too.
\<close>

definition release_t :: "environment \<Rightarrow> t_var \<Rightarrow> event list \<Rightarrow> event list" where
  "release_t env t tr =
     (case t of
        Bound (Some tk) \<Rightarrow> fst (call env tk ClearTask (fst (call env tk StopTask tr)))
      | _ \<Rightarrow> tr)"

text \<open>
  Lines 189 to 215: a new task writes 0 V, by \<^verbatim>\<open>WriteAnalogScalarF64\<close> when the task has
  it and by a one-sample buffer otherwise; every exception is swallowed; when the
  constructor returned, \<^verbatim>\<open>StopTask\<close> and \<^verbatim>\<open>ClearTask\<close> follow in one try.
\<close>

definition force_zero :: "environment \<Rightarrow> DAQWorker \<Rightarrow> event list \<Rightarrow> event list" where
  "force_zero env w tr =
     (case call env T_zero Task tr of
        (tr1, Some e) \<Rightarrow> tr1
      | (tr1, None) \<Rightarrow>
          fst (calls env T_zero [StopTask, ClearTask]
            (case call env T_zero (CreateAOVoltageChan (device w)) tr1 of
               (tr2, Some e) \<Rightarrow> tr2
             | (tr2, None) \<Rightarrow>
                 if has_WriteAnalogScalarF64 env then
                   fst (calls env T_zero [StartTask, WriteAnalogScalarF64 0] tr2)
                 else
                   (case call env T_zero (CfgSampClkTiming 1000 DAQmx_Val_FiniteSamps 1) tr2 of
                      (tr3, Some e) \<Rightarrow> tr3
                    | (tr3, None) \<Rightarrow>
                        if \<not> can_allocate env 1 then tr3
                        else
                          (case call env T_zero (WriteAnalogF64 1 True [0]) tr3 of
                             (tr4, Some e) \<Rightarrow> tr4
                           | (tr4, None) \<Rightarrow>
                               fst (call env T_zero (WaitUntilTaskDone 10) tr4))))))"

text \<open>The hardware part of the finally block (lines 174 to 215), with its settle delay.\<close>

definition safe_shutdown :: "environment \<Rightarrow> DAQWorker \<Rightarrow> t_var \<Rightarrow> event list \<Rightarrow> event list" where
  "safe_shutdown env w t tr = force_zero env w (release_t env t tr @ [Sleep (1 / 20)])"

subsection \<open>run\<close>

text \<open>
  \<^verbatim>\<open>DAQWorker.run\<close>: the try block; \<^verbatim>\<open>except Exception as e: self.error.emit(str(e))\<close>; the
  finally block, which touches the hardware only when the driver is there, and then
  \<^verbatim>\<open>self.finished.emit()\<close>. The result is the events of the run, or \<open>None\<close> when the run
  does not return.
\<close>

definition run :: "environment \<Rightarrow> DAQWorker \<Rightarrow> event list option" where
  "run env w =
     (case try_block env w of
        None \<Rightarrow> None
      | Some (tr, t, r) \<Rightarrow>
          (let tr1 = (case r of Some e \<Rightarrow> tr @ [Emit_error (Str e)] | None \<Rightarrow> tr);
               tr2 = (if DAQ_AVAILABLE env then safe_shutdown env w t tr1 else tr1)
           in Some (tr2 @ [Emit_finished])))"

subsection \<open>Reading a run's events\<close>

text \<open>
  The events the try block and its exception handler can make: calls on \<^verbatim>\<open>t_delay\<close> and
  \<^verbatim>\<open>t\<close>, the polling sleep of a tenth of a second, and the \<^verbatim>\<open>started\<close> and \<^verbatim>\<open>error\<close>
  signals.
\<close>

definition generation_event :: "event \<Rightarrow> bool" where
  "generation_event e \<longleftrightarrow>
     (case e of
        Call tk c \<Rightarrow> tk \<noteq> T_zero
      | Sleep d \<Rightarrow> d = 1 / 10
      | Emit_started \<Rightarrow> True
      | Emit_error m \<Rightarrow> True
      | Emit_finished \<Rightarrow> False)"

text \<open>The events of the try block alone: a generation event that is not an error signal.\<close>

definition try_event :: "event \<Rightarrow> bool" where
  "try_event e \<longleftrightarrow> generation_event e \<and> (case e of Emit_error m \<Rightarrow> False | _ \<Rightarrow> True)"

text \<open>A call on the task \<^verbatim>\<open>t_zero\<close> other than its construction.\<close>

definition zero_call :: "event \<Rightarrow> bool" where
  "zero_call e \<longleftrightarrow> (case e of Call tk c \<Rightarrow> tk = T_zero \<and> c \<noteq> Task | _ \<Rightarrow> False)"

text \<open>The constructor call for \<^verbatim>\<open>t\<close> was made and returned: \<^verbatim>\<open>t\<close> holds a task.\<close>

definition main_task_created :: "environment \<Rightarrow> event list \<Rightarrow> bool" where
  "main_task_created env tr \<longleftrightarrow>
     (\<exists>i \<in> {0..<length tr}. tr ! i = Call T_main Task \<and> raises env i = None)"

text \<open>
  The signals that end a run for the window: \<^verbatim>\<open>error\<close> and \<^verbatim>\<open>finished\<close>, both connected
  to handlers that clean up (\<^verbatim>\<open>on_generation_error\<close> calls \<^verbatim>\<open>on_generation_finished\<close>).
\<close>

definition terminal_signals :: "event list \<Rightarrow> event list" where
  "terminal_signals tr =
     filter (\<lambda>e. case e of Emit_error m \<Rightarrow> True | Emit_finished \<Rightarrow> True | _ \<Rightarrow> False) tr"

text \<open>
  Among the events \<open>tr\<close>, the only driver calls that raised are one-second waits of a
  polling loop.
\<close>

definition only_polls_raised :: "environment \<Rightarrow> event list \<Rightarrow> bool" where
  "only_polls_raised env tr \<longleftrightarrow>
     (\<forall>i \<in> {0..<length tr}.
        case tr ! i of
          Call tk c \<Rightarrow> raises env i = None \<or> c = WaitUntilTaskDone 1
        | _ \<Rightarrow> True)"

text \<open>The same for the calls on one task.\<close>

definition only_polls_raised_on :: "task \<Rightarrow> environment \<Rightarrow> event list \<Rightarrow> bool" where
  "only_polls_raised_on tk env tr \<longleftrightarrow>
     (\<forall>i \<in> {0..<length tr}.
        case tr ! i of
          Call tk' c \<Rightarrow> tk' \<noteq> tk \<or> raises env i = None \<or> c = WaitUntilTaskDone 1
        | _ \<Rightarrow> True)"

text \<open>
  The events \<open>tr\<close> of a try block agree with the way \<open>r\<close> in which the block was left.
  Left by the exception of a driver call with message \<open>m\<close>: the last event is a call other
  than a one-second wait, that call raised with message \<open>m\<close>, and before it only waits of
  a polling loop raised. Left normally or by an exception that numpy raised: only waits of
  a polling loop raised.
\<close>

definition left_by :: "environment \<Rightarrow> event list \<Rightarrow> py_error option \<Rightarrow> bool" where
  "left_by env tr r \<longleftrightarrow>
     (case r of
        Some (DAQError m) \<Rightarrow>
          tr \<noteq> [] \<and> only_polls_raised env (butlast tr)
          \<and> (case last tr of Call tk c \<Rightarrow> c \<noteq> WaitUntilTaskDone 1 | _ \<Rightarrow> False)
          \<and> raises env (length tr - 1) = Some m
      | _ \<Rightarrow> only_polls_raised env tr)"

text \<open>The events of a try block left in the way \<open>r\<close>: try events that agree with \<open>r\<close>.\<close>

definition try_post :: "environment \<Rightarrow> event list \<Rightarrow> py_error option \<Rightarrow> bool" where
  "try_post env tr r \<longleftrightarrow> (\<forall>e \<in> set tr. try_event e) \<and> left_by env tr r"

text \<open>The signal of the exception handler: \<^verbatim>\<open>error.emit(str(e))\<close>, if an exception was caught.\<close>

definition error_signal :: "py_error option \<Rightarrow> event list" where
  "error_signal r = (case r of Some e \<Rightarrow> [Emit_error (Str e)] | None \<Rightarrow> [])"

text \<open>
  Every task \<open>tk\<close> whose constructor returned within the events \<open>tr\<close> has \<^verbatim>\<open>StopTask\<close> and,
  after it, \<^verbatim>\<open>ClearTask\<close> called on it later within \<open>tr\<close>.
\<close>

definition released :: "task \<Rightarrow> environment \<Rightarrow> event list \<Rightarrow> bool" where
  "released tk env tr \<longleftrightarrow>
     (\<forall>i \<in> {0..<length tr}. tr ! i = Call tk Task \<and> raises env i = None \<longrightarrow>
        Call tk ClearTask \<in> set (dropWhile (\<lambda>e. e \<noteq> Call tk StopTask) (drop (Suc i) tr)))"

text \<open>The keys \<^verbatim>\<open>load_params_from_json\<close> reads: eight current and three older names.\<close>

definition load_keys :: "string list" where
  "load_keys =
     [''device'', ''channel'', ''sampling_rate'', ''trigger_duration'', ''pulse_duration'',
      ''inter_trigger_interval'', ''inter_pulse_interval'', ''initial_trigger_delay'',
      ''infinite'', ''nb_triggers'', ''nb_pulses'']"

section \<open>Properties\<close>

subsection \<open>Helper facts\<close>

lemma dropWhile_all_iff: "(\<forall>x\<in>set (dropWhile P s). P x) \<longleftrightarrow> (\<forall>x\<in>set s. P x)"
  by (induction s) auto

lemma strip_empty_iff: "strip s = [] \<longleftrightarrow> (\<forall>c\<in>set s. isspace c)"
  by (simp add: strip_def dropWhile_all_iff)

lemma strip_no_slash: "CHR ''/'' \<notin> set s \<Longrightarrow> CHR ''/'' \<notin> set (strip s)"
proof
  assume a: "CHR ''/'' \<notin> set s" and b: "CHR ''/'' \<in> set (strip s)"
  from b have "CHR ''/'' \<in> set (dropWhile isspace (rev (dropWhile isspace s)))"
    by (simp add: strip_def)
  then have "CHR ''/'' \<in> set (rev (dropWhile isspace s))"
    by (rule set_dropWhileD)
  then have "CHR ''/'' \<in> set s"
    by (auto dest: set_dropWhileD)
  with a show False by simp
qed


subsection \<open>Channel path\<close>

text \<open>
  C10 (as amended). For every pair of strings, \<^verbatim>\<open>build_channel_path\<close> returns
  \<^verbatim>\<open>dev + "/" + ch\<close>, where \<^verbatim>\<open>dev\<close> is the stripped device string, or "Dev2" when the
  device string is empty or all whitespace, and \<^verbatim>\<open>ch\<close> is the stripped channel string, or
  "ao0" when the channel string is empty or all whitespace. Both parts are non-empty, so
  the device-only branch is never taken. The result contains exactly one "/" whenever
  neither input contains one.
\<close>

theorem build_channel_path_shape:
  "\<exists>dev ch. build_channel_path d c = dev @ ''/'' @ ch \<and> dev \<noteq> [] \<and> ch \<noteq> []
     \<and> dev = (if \<forall>x\<in>set d. isspace x then ''Dev2'' else strip d)
     \<and> ch = (if \<forall>x\<in>set c. isspace x then ''ao0'' else strip c)
     \<and> (CHR ''/'' \<notin> set d \<and> CHR ''/'' \<notin> set c
          \<longrightarrow> count_list (build_channel_path d c) (CHR ''/'') = 1)"
proof -
  define dev where "dev = str_or (strip d) ''Dev2''"
  define ch where "ch = str_or (strip c) ''ao0''"
  have dev_ne: "dev \<noteq> []" and ch_ne: "ch \<noteq> []"
    by (simp_all add: dev_def ch_def str_or_def)
  have res: "build_channel_path d c = dev @ ''/'' @ ch"
    using ch_ne by (simp add: build_channel_path_def dev_def ch_def Let_def)
  have dev_eq: "dev = (if \<forall>x\<in>set d. isspace x then ''Dev2'' else strip d)"
    using strip_empty_iff [of d] by (simp add: dev_def str_or_def)
  have ch_eq: "ch = (if \<forall>x\<in>set c. isspace x then ''ao0'' else strip c)"
    using strip_empty_iff [of c] by (simp add: ch_def str_or_def)
  have one: "count_list (build_channel_path d c) (CHR ''/'') = 1"
    if "CHR ''/'' \<notin> set d" "CHR ''/'' \<notin> set c"
  proof -
    have "CHR ''/'' \<notin> set dev"
      using strip_no_slash [OF that(1)] by (simp add: dev_eq)
    moreover have "CHR ''/'' \<notin> set ch"
      using strip_no_slash [OF that(2)] by (simp add: ch_eq)
    ultimately show ?thesis
      by (simp add: res)
  qed
  show ?thesis
    using res dev_ne ch_ne dev_eq ch_eq one by blast
qed

theorem build_channel_path_shape_witness:
  "CHR ''/'' \<notin> set ''  '' \<and> CHR ''/'' \<notin> set '' ao1''
     \<and> build_channel_path ''  '' '' ao1'' = ''Dev2/ao1''
     \<and> count_list (build_channel_path ''  '' '' ao1'') (CHR ''/'') = 1"
  using build_channel_path_shape [of "''  ''" "'' ao1''"]
  by (simp add: isspace_def strip_def)

text \<open>
  The claim as stated, "the result always contains exactly one slash", fails when an input
  holds a slash itself: the device text "Dev2/ao0" with the channel text "ao0" gives
  "Dev2/ao0/ao0".
\<close>

theorem build_channel_path_two_slashes:
  "build_channel_path ''Dev2/ao0'' ''ao0'' = ''Dev2/ao0/ao0''
     \<and> count_list (build_channel_path ''Dev2/ao0'' ''ao0'') (CHR ''/'') \<noteq> 1"
  by (simp add: build_channel_path_def strip_def str_or_def isspace_def)

subsection \<open>Stop request\<close>

text \<open>
  C8. Requesting a stop is total (the handler has no failing branch) and idempotent. With no
  worker yet (before the first start) it changes nothing; with a worker, its only effect is
  to set that worker's \<^verbatim>\<open>_stop_requested\<close> flag, every other attribute of the worker and
  of the window staying as it was; once the flag is set, a further request changes nothing,
  and nothing resets it.
\<close>

theorem stop_generation_idempotent:
  "stop_generation (stop_generation g) = stop_generation g
     \<and> (worker g = None \<longrightarrow> stop_generation g = g)
     \<and> (\<forall>w. worker g = Some w \<longrightarrow>
           stop_generation g = g\<lparr>worker := Some (w\<lparr>stop_requested := True\<rparr>)\<rparr>
           \<and> (stop_requested w \<longrightarrow> stop_generation g = g))
     \<and> state_start_time (stop_generation g) = state_start_time g
     \<and> worker_params (stop_generation g) = worker_params g
     \<and> stop (stop w) = stop w
     \<and> stop_requested (stop w)
     \<and> (stop w)\<lparr>stop_requested := stop_requested w\<rparr> = w
     \<and> (stop_requested w \<longrightarrow> stop w = w)"
  by (cases "worker g") (simp_all add: stop_generation_def stop_def)

theorem stop_generation_idempotent_witness:
  "stop_generation \<lparr>worker = None, state_start_time = None, worker_params = None\<rparr>
     = \<lparr>worker = None, state_start_time = None, worker_params = None\<rparr>
   \<and> stop_generation
       \<lparr>worker = Some (DAQWorker_init ''Dev2/ao0'' 1000 (2 / 10) 20 True 5 5),
        state_start_time = None, worker_params = None\<rparr>
     = \<lparr>worker = Some ((DAQWorker_init ''Dev2/ao0'' 1000 (2 / 10) 20 True 5 5)
                        \<lparr>stop_requested := True\<rparr>),
        state_start_time = None, worker_params = None\<rparr>
   \<and> stop_generation
       \<lparr>worker = Some (stop (DAQWorker_init ''Dev2/ao0'' 1000 (2 / 10) 20 True 5 5)),
        state_start_time = None, worker_params = None\<rparr>
     = \<lparr>worker = Some (stop (DAQWorker_init ''Dev2/ao0'' 1000 (2 / 10) 20 True 5 5)),
        state_start_time = None, worker_params = None\<rparr>"
proof -
  define w0 where "w0 = DAQWorker_init ''Dev2/ao0'' 1000 (2 / 10) 20 True 5 5"
  define g0 :: TriggerGeneratorWindow
    where "g0 = \<lparr>worker = None, state_start_time = None, worker_params = None\<rparr>"
  have a: "stop_generation g0 = g0"
    using stop_generation_idempotent [of g0 w0] by (simp add: g0_def)
  have b: "stop_generation (g0\<lparr>worker := Some w0\<rparr>)
      = g0\<lparr>worker := Some (w0\<lparr>stop_requested := True\<rparr>)\<rparr>"
    using stop_generation_idempotent [of "g0\<lparr>worker := Some w0\<rparr>" w0] by simp
  have c: "stop_generation (g0\<lparr>worker := Some (stop w0)\<rparr>) = g0\<lparr>worker := Some (stop w0)\<rparr>"
    using stop_generation_idempotent [of "g0\<lparr>worker := Some (stop w0)\<rparr>" w0] by simp
  show ?thesis
    using a b c unfolding g0_def w0_def by simp
qed

subsection \<open>Saving and loading parameters\<close>

text \<open>
  C9 (as amended). The saved record is flat and has exactly the keys device, channel,
  sampling_rate, trigger_duration, inter_trigger_interval, initial_trigger_delay, infinite,
  nb_triggers, duree_secondes, heure_debut, heure_fin, in this order. Loading reads the
  first eight of them; loading what was saved gives back the saved parameters. A key that
  is present gives its value. A missing device, channel, sampling_rate,
  initial_trigger_delay or infinite falls back to "Dev2", "ao0", 1000, 5, true; a missing
  trigger_duration, inter_trigger_interval or nb_triggers falls back to the older key
  pulse_duration, inter_pulse_interval or nb_pulses, and to 0.2, 20, 5 when that is missing
  too. Any other key is ignored.
\<close>

theorem persisted_record:
  "map_option (map fst) (save_params_to_json (Some p) d t0 t1)
       = Some [''device'', ''channel'', ''sampling_rate'', ''trigger_duration'',
               ''inter_trigger_interval'', ''initial_trigger_delay'', ''infinite'',
               ''nb_triggers'', ''duree_secondes'', ''heure_debut'', ''heure_fin'']
     \<and> (\<forall>kvs. save_params_to_json (Some p) d t0 t1 = Some kvs \<longrightarrow>
           load_params_from_json (map_of kvs)
             = \<lparr>device_edit = JStr (p_device p), channel_edit = JStr (p_channel p),
                sampling_rate_spin = JFloat (p_sampling_rate p),
                trigger_duration_spin = JFloat (p_trigger p),
                inter_trigger_spin = JFloat (p_interval p),
                initial_trigger_delay_spin = JFloat (p_initial_trigger_delay p),
                infinite_check = JBool (p_infinite p),
                nb_triggers_spin = JInt (p_nb_triggers p)\<rparr>)
     \<and> load_params_from_json Map.empty
           = \<lparr>device_edit = JStr ''Dev2'', channel_edit = JStr ''ao0'',
              sampling_rate_spin = JInt 1000, trigger_duration_spin = JFloat (2 / 10),
              inter_trigger_spin = JInt 20, initial_trigger_delay_spin = JInt 5,
              infinite_check = JBool True, nb_triggers_spin = JInt 5\<rparr>
     \<and> device_edit (load_params_from_json data)
           = (case data ''device'' of Some v \<Rightarrow> v | None \<Rightarrow> JStr ''Dev2'')
     \<and> channel_edit (load_params_from_json data)
           = (case data ''channel'' of Some v \<Rightarrow> v | None \<Rightarrow> JStr ''ao0'')
     \<and> sampling_rate_spin (load_params_from_json data)
           = (case data ''sampling_rate'' of Some v \<Rightarrow> v | None \<Rightarrow> JInt 1000)
     \<and> initial_trigger_delay_spin (load_params_from_json data)
           = (case data ''initial_trigger_delay'' of Some v \<Rightarrow> v | None \<Rightarrow> JInt 5)
     \<and> infinite_check (load_params_from_json data)
           = (case data ''infinite'' of Some v \<Rightarrow> v | None \<Rightarrow> JBool True)
     \<and> trigger_duration_spin (load_params_from_json data)
           = (case data ''trigger_duration'' of Some v \<Rightarrow> v
              | None \<Rightarrow> (case data ''pulse_duration'' of Some v \<Rightarrow> v
                         | None \<Rightarrow> JFloat (2 / 10)))
     \<and> inter_trigger_spin (load_params_from_json data)
           = (case data ''inter_trigger_interval'' of Some v \<Rightarrow> v
              | None \<Rightarrow> (case data ''inter_pulse_interval'' of Some v \<Rightarrow> v
                         | None \<Rightarrow> JInt 20))
     \<and> nb_triggers_spin (load_params_from_json data)
           = (case data ''nb_triggers'' of Some v \<Rightarrow> v
              | None \<Rightarrow> (case data ''nb_pulses'' of Some v \<Rightarrow> v | None \<Rightarrow> JInt 5))
     \<and> (k \<notin> set load_keys \<longrightarrow>
           load_params_from_json (data(k \<mapsto> v)) = load_params_from_json data)"
proof -
  have c1: "map_option (map fst) (save_params_to_json (Some p) d t0 t1)
       = Some [''device'', ''channel'', ''sampling_rate'', ''trigger_duration'',
               ''inter_trigger_interval'', ''initial_trigger_delay'', ''infinite'',
               ''nb_triggers'', ''duree_secondes'', ''heure_debut'', ''heure_fin'']"
    by (simp add: save_params_to_json_def load_params_from_json_def dict_get_def split: option.splits)
  have c2: "(\<forall>kvs. save_params_to_json (Some p) d t0 t1 = Some kvs \<longrightarrow>
           load_params_from_json (map_of kvs)
             = \<lparr>device_edit = JStr (p_device p), channel_edit = JStr (p_channel p),
                sampling_rate_spin = JFloat (p_sampling_rate p),
                trigger_duration_spin = JFloat (p_trigger p),
                inter_trigger_spin = JFloat (p_interval p),
                initial_trigger_delay_spin = JFloat (p_initial_trigger_delay p),
                infinite_check = JBool (p_infinite p),
                nb_triggers_spin = JInt (p_nb_triggers p)\<rparr>)"
    by (simp add: save_params_to_json_def load_params_from_json_def dict_get_def split: option.splits)
  have c3: "load_params_from_json Map.empty
           = \<lparr>device_edit = JStr ''Dev2'', channel_edit = JStr ''ao0'',
              sampling_rate_spin = JInt 1000, trigger_duration_spin = JFloat (2 / 10),
              inter_trigger_spin = JInt 20, initial_trigger_delay_spin = JInt 5,
              infinite_check = JBool True, nb_triggers_spin = JInt 5\<rparr>"
    by (simp add: save_params_to_json_def load_params_from_json_def dict_get_def split: option.splits)
  have c4: "device_edit (load_params_from_json data)
           = (case data ''device'' of Some v \<Rightarrow> v | None \<Rightarrow> JStr ''Dev2'')"
    by (simp add: save_params_to_json_def load_params_from_json_def dict_get_def split: option.splits)
  have c5: "channel_edit (load_params_from_json data)
           = (case data ''channel'' of Some v \<Rightarrow> v | None \<Rightarrow> JStr ''ao0'')"
    by (simp add: save_params_to_json_def load_params_from_json_def dict_get_def split: option.splits)
  have c6: "sampling_rate_spin (load_params_from_json data)
           = (case data ''sampling_rate'' of Some v \<Rightarrow> v | None \<Rightarrow> JInt 1000)"
    by (simp add: save_params_to_json_def load_params_from_json_def dict_get_def split: option.splits)
  have c7: "initial_trigger_delay_spin (load_params_from_json data)
           = (case data ''initial_trigger_delay'' of Some v \<Rightarrow> v | None \<Rightarrow> JInt 5)"
    by (simp add: save_params_to_json_def load_params_from_json_def dict_get_def split: option.splits)
  have c8: "infinite_check (load_params_from_json data)
           = (case data ''infinite'' of Some v \<Rightarrow> v | None \<Rightarrow> JBool True)"
    by (simp add: save_params_to_json_def load_params_from_json_def dict_get_def split: option.splits)
  have c9: "trigger_duration_spin (load_params_from_json data)
           = (case data ''trigger_duration'' of Some v \<Rightarrow> v
              | None \<Rightarrow> (case data ''pulse_duration'' of Some v \<Rightarrow> v
                         | None \<Rightarrow> JFloat (2 / 10)))"
    by (simp add: save_params_to_json_def load_params_from_json_def dict_get_def split: option.splits)
  have c10: "inter_trigger_spin (load_params_from_json data)
           = (case data ''inter_trigger_interval'' of Some v \<Rightarrow> v
              | None \<Rightarrow> (case data ''inter_pulse_interval'' of Some v \<Rightarrow> v
                         | None \<Rightarrow> JInt 20))"
    by (simp add: save_params_to_json_def load_params_from_json_def dict_get_def split: option.splits)
  have c11: "nb_triggers_spin (load_params_from_json data)
           = (case data ''nb_triggers'' of Some v \<Rightarrow> v
              | None \<Rightarrow> (case data ''nb_pulses'' of Some v \<Rightarrow> v | None \<Rightarrow> JInt 5))"
    by (simp add: save_params_to_json_def load_params_from_json_def dict_get_def split: option.splits)
  have c12: "(k \<notin> set load_keys \<longrightarrow>
           load_params_from_json (data(k \<mapsto> v)) = load_params_from_json data)"
  proof
    assume k: "k \<notin> set load_keys"
    have "(data(k \<mapsto> v)) x = data x" if "x \<in> set load_keys" for x
      using that k by auto
    then show "load_params_from_json (data(k \<mapsto> v)) = load_params_from_json data"
      by (simp add: load_keys_def load_params_from_json_def dict_get_def del: fun_upd_apply)
  qed
  show ?thesis
    by (intro conjI) (fact c1 c2 c3 c4 c5 c6 c7 c8 c9 c10 c11 c12)+
qed

theorem persisted_record_witness:
  "''heure_fin'' \<notin> set load_keys
     \<and> load_params_from_json ([''sampling_rate'' \<mapsto> JInt 500, ''heure_fin'' \<mapsto> JStr ''x''])
         = load_params_from_json ([''sampling_rate'' \<mapsto> JInt 500])
     \<and> sampling_rate_spin (load_params_from_json ([''sampling_rate'' \<mapsto> JInt 500])) = JInt 500
     \<and> trigger_duration_spin (load_params_from_json ([''sampling_rate'' \<mapsto> JInt 500]))
         = JFloat (2 / 10)"
proof -
  have k: "''heure_fin'' \<notin> set load_keys"
    by (simp add: load_keys_def)
  show ?thesis
    using k persisted_record [of _ _ _ _ "[''sampling_rate'' \<mapsto> JInt 500]" "''heure_fin''" "JStr ''x''"]
    by simp
qed

text \<open>
  The claim as stated fails in two places. The saved record has no field named
  duration_seconds, start_time or end_time (the code writes duree_secondes, heure_debut,
  heure_fin), so its keys are not the listed ones. And a record without trigger_duration
  does not always load the default 0.2: an older record with pulse_duration 0.5 loads 0.5.
\<close>

theorem persisted_fields_differ:
  "map_option (map fst)
       (save_params_to_json
          (Some \<lparr>p_device = ''Dev2'', p_channel = ''ao0'', p_sampling_rate = 1000,
                 p_initial_trigger_delay = 5, p_trigger = 2 / 10, p_interval = 20,
                 p_infinite = True, p_nb_triggers = 5\<rparr>)
          (123 / 100) ''2024-01-01 10:00:00'' ''2024-01-01 10:00:01'')
     \<noteq> Some spec_fields
   \<and> trigger_duration_spin (load_params_from_json [''pulse_duration'' \<mapsto> JFloat (5 / 10)])
     \<noteq> JFloat (2 / 10)"
  by (simp add: save_params_to_json_def spec_fields_def load_params_from_json_def dict_get_def)

subsection \<open>Double-precision arithmetic\<close>

lemma round_half_even_nonneg: "0 \<le> x \<Longrightarrow> 0 \<le> round_half_even x"
  by (auto simp add: round_half_even_def Let_def)

lemma round_half_even_of_int: "round_half_even (of_int m) = m"
  by (simp add: round_half_even_def Let_def)

lemma fl_nonneg: "0 \<le> x \<Longrightarrow> 0 \<le> fl x"
  by (simp add: fl_def round_half_even_nonneg)

lemma fmul_nonneg: "0 \<le> a \<Longrightarrow> 0 \<le> b \<Longrightarrow> 0 \<le> fmul a b"
  by (simp add: fmul_def fl_nonneg)

lemma py_int_nonneg: "0 \<le> x \<Longrightarrow> py_int x = \<lfloor>x\<rfloor>"
  by (simp add: py_int_def)

lemma fl_of_int:
  assumes "0 \<le> n" and "n < 2 ^ 53"
  shows "fl (of_int n) = of_int n"
proof (cases "n = 0")
  case True
  then show ?thesis by (simp add: fl_def)
next
  case False
  then have pos: "0 < n" using assms(1) by simp
  define b where "b = bitlen n"
  have b1: "1 \<le> b"
    using pos bitlen_eq_zero_iff [of n] bitlen_nonneg [of n] by (simp add: b_def)
  have "2 ^ nat (b - 1) \<le> n"
    using bitlen_bounds [OF pos] by (simp add: b_def)
  then have "(2::int) ^ nat (b - 1) < 2 ^ 53"
    using assms(2) by linarith
  then have "nat (b - 1) < 53"
    by (rule power_less_imp_less_exp [rotated]) simp
  then have b53: "b \<le> 53" by linarith
  define k where "k = nat (53 - b)"
  have e: "exponent (of_int n) - 52 = - int k"
    using pos b1 b53 by (simp add: exponent_def b_def k_def)
  have p: "(2::real) powi (- int k) = 1 / 2 ^ k"
    by (simp add: power_int_minus field_simps)
  have x: "real_of_int n / 2 powi (- int k) = of_int (n * 2 ^ k)"
    by (simp add: p)
  have r: "round_half_even (real_of_int n / 2 powi (- int k)) = n * 2 ^ k"
    by (simp only: x round_half_even_of_int)
  have nz: "real_of_int n \<noteq> 0"
    using False by simp
  have "fl (of_int n)
      = of_int (round_half_even (of_int n / 2 powi (- int k))) * 2 powi (- int k)"
    by (simp only: fl_def e nz if_False)
  also have "\<dots> = of_int (n * 2 ^ k) * 2 powi (- int k)"
    by (simp only: r)
  also have "\<dots> = of_int (n * 2 ^ k) * (1 / 2 ^ k)"
    by (simp only: p)
  also have "\<dots> = of_int n"
    by simp
  finally show ?thesis .
qed

lemma exponent_le:
  assumes "x \<noteq> 0"
  shows "2 powi (exponent x) \<le> \<bar>x\<bar>"
proof (cases "1 \<le> \<bar>x\<bar>")
  case True
  define n where "n = \<lfloor>\<bar>x\<bar>\<rfloor>"
  have n: "0 < n" using True by (simp add: n_def)
  have "2 ^ nat (bitlen n - 1) \<le> n"
    using bitlen_bounds [OF n] by simp
  then have "real_of_int (2 ^ nat (bitlen n - 1)) \<le> real_of_int n"
    by (simp only: of_int_le_iff)
  also have "\<dots> \<le> \<bar>x\<bar>" by (simp add: n_def)
  finally have a: "2 ^ nat (bitlen n - 1) \<le> \<bar>x\<bar>" by simp
  have b1: "1 \<le> bitlen n"
    using n bitlen_eq_zero_iff [of n] bitlen_nonneg [of n] by simp
  have "(2::real) powi (bitlen n - 1) = 2 ^ nat (bitlen n - 1)"
    using b1 by (simp add: power_int_def)
  then show ?thesis
    using a True by (simp add: exponent_def n_def)
next
  case False
  then have lt: "\<bar>x\<bar> < 1" by simp
  have pos: "0 < \<bar>x\<bar>" using assms by simp
  define y where "y = 1 / \<bar>x\<bar>"
  have y1: "1 < y" using lt pos by (simp add: y_def)
  define m where "m = \<lceil>y\<rceil> - 1"
  have m: "0 < m" using y1 by (simp add: m_def)
  have ym: "y \<le> of_int m + 1"
    by (simp add: m_def)
  have "m < 2 ^ nat (bitlen m)"
    using bitlen_bounds [OF m] by simp
  then have "m + 1 \<le> 2 ^ nat (bitlen m)" by simp
  then have "real_of_int (m + 1) \<le> real_of_int (2 ^ nat (bitlen m))"
    by (simp only: of_int_le_iff)
  then have "y \<le> 2 ^ nat (bitlen m)"
    using ym by simp
  then have "1 / 2 ^ nat (bitlen m) \<le> 1 / y"
    using y1 by (simp add: frac_le)
  then have a: "1 / 2 ^ nat (bitlen m) \<le> \<bar>x\<bar>"
    by (simp add: y_def)
  have "(2::real) powi (- bitlen m) = 1 / 2 ^ nat (bitlen m)"
    using bitlen_nonneg [of m] by (simp add: power_int_def field_simps)
  then show ?thesis
    using a False by (simp add: exponent_def m_def y_def)
qed

lemma round_half_even_ge: "of_int k \<le> x \<Longrightarrow> k \<le> round_half_even x"
proof -
  assume "of_int k \<le> x"
  then have "k \<le> \<lfloor>x\<rfloor>" by (simp add: le_floor_iff)
  then show ?thesis by (auto simp add: round_half_even_def Let_def)
qed

lemma fl_pos:
  assumes "0 < x"
  shows "0 < fl x"
proof -
  have nz: "x \<noteq> 0" using assms by simp
  define s where "s = (2::real) powi (exponent x - 52)"
  have s: "0 < s" by (simp add: s_def)
  have "2 powi (exponent x) \<le> x"
    using exponent_le [OF nz] assms by simp
  moreover have "(2::real) powi (exponent x) = 2 ^ 52 * s"
    by (simp add: s_def power_int_diff)
  ultimately have "2 ^ 52 * s \<le> x" by simp
  then have "2 ^ 52 \<le> x / s"
    using s by (simp add: pos_le_divide_eq)
  then have "real_of_int 1 \<le> x / s" by simp
  then have "1 \<le> round_half_even (x / s)"
    by (rule round_half_even_ge)
  then have "0 < real_of_int (round_half_even (x / s)) * s"
    using s by simp
  then show ?thesis
    using nz by (simp add: fl_def s_def)
qed

lemma fadd_pos: "0 < a \<Longrightarrow> 0 \<le> b \<Longrightarrow> 0 < fadd a b"
  by (simp add: fadd_def fl_pos)

lemma exponent_gt:
  assumes "x \<noteq> 0"
  shows "\<bar>x\<bar> < 2 powi (exponent x + 1)"
proof (cases "1 \<le> \<bar>x\<bar>")
  case True
  define n where "n = \<lfloor>\<bar>x\<bar>\<rfloor>"
  have n: "0 < n" using True by (simp add: n_def)
  have b0: "0 \<le> bitlen n" by (rule bitlen_nonneg)
  have "n < 2 ^ nat (bitlen n)"
    using bitlen_bounds [OF n] by simp
  then have "n + 1 \<le> 2 ^ nat (bitlen n)" by simp
  then have "real_of_int (n + 1) \<le> real_of_int (2 ^ nat (bitlen n))"
    by (simp only: of_int_le_iff)
  moreover have "\<bar>x\<bar> < real_of_int (n + 1)"
    by (simp add: n_def)
  ultimately have a: "\<bar>x\<bar> < 2 ^ nat (bitlen n)" by simp
  have "(2::real) powi (bitlen n) = 2 ^ nat (bitlen n)"
    using b0 by (simp add: power_int_def)
  then show ?thesis
    using a True by (simp add: exponent_def n_def)
next
  case False
  then have lt: "\<bar>x\<bar> < 1" by simp
  have pos: "0 < \<bar>x\<bar>" using assms by simp
  define y where "y = 1 / \<bar>x\<bar>"
  have y1: "1 < y" using lt pos by (simp add: y_def)
  define m where "m = \<lceil>y\<rceil> - 1"
  have m: "0 < m" using y1 by (simp add: m_def)
  have b1: "1 \<le> bitlen m"
    using m bitlen_eq_zero_iff [of m] bitlen_nonneg [of m] by simp
  have my: "of_int m < y"
    by (simp add: m_def) linarith
  have "2 ^ nat (bitlen m - 1) \<le> m"
    using bitlen_bounds [OF m] by simp
  then have "real_of_int (2 ^ nat (bitlen m - 1)) \<le> real_of_int m"
    by (simp only: of_int_le_iff)
  moreover have "real_of_int (2 ^ nat (bitlen m - 1)) = 2 ^ nat (bitlen m - 1)"
    by simp
  ultimately have "2 ^ nat (bitlen m - 1) < y"
    using my by linarith
  then have "1 / y < 1 / 2 ^ nat (bitlen m - 1)"
    by (simp add: frac_less2)
  then have a: "\<bar>x\<bar> < 1 / 2 ^ nat (bitlen m - 1)"
    by (simp add: y_def)
  have "(2::real) powi (- bitlen m + 1) = 1 / 2 ^ nat (bitlen m - 1)"
  proof -
    have "- bitlen m + 1 = - int (nat (bitlen m - 1))" using b1 by simp
    then have "(2::real) powi (- bitlen m + 1) = 2 powi (- int (nat (bitlen m - 1)))"
      by simp
    also have "\<dots> = 1 / 2 ^ nat (bitlen m - 1)"
      by (simp only: power_int_minus power_int_of_nat) (simp add: field_simps)
    finally show ?thesis .
  qed
  then show ?thesis
    using a False by (simp add: exponent_def m_def y_def)
qed

lemma powi2_less_imp:
  assumes "(2::real) powi a < 2 powi b"
  shows "a < b"
proof (rule ccontr)
  assume "\<not> a < b"
  then have "b \<le> a" by simp
  then have "(2::real) powi b \<le> 2 powi a"
    by (rule power_int_increasing) simp
  then show False using assms by simp
qed

lemma exponent_unique:
  assumes "2 powi e \<le> \<bar>x\<bar>" and "\<bar>x\<bar> < 2 powi (e + 1)"
  shows "exponent x = e"
proof -
  have "0 < (2::real) powi e" by simp
  then have "0 < \<bar>x\<bar>" using assms(1) by linarith
  then have nz: "x \<noteq> 0" by simp
  have "(2::real) powi e < 2 powi (exponent x + 1)"
    using assms(1) exponent_gt [OF nz] by linarith
  then have a: "e < exponent x + 1" by (rule powi2_less_imp)
  have "(2::real) powi (exponent x) < 2 powi (e + 1)"
    using assms(2) exponent_le [OF nz] by linarith
  then have b: "exponent x < e + 1" by (rule powi2_less_imp)
  from a b show ?thesis by simp
qed

lemma round_half_even_le: "x \<le> of_int k \<Longrightarrow> round_half_even x \<le> k"
proof -
  assume a: "x \<le> of_int k"
  then have f: "\<lfloor>x\<rfloor> \<le> k" by (simp add: floor_le_iff)
  show ?thesis
  proof (cases "\<lfloor>x\<rfloor> = k")
    case True
    then have "x - of_int \<lfloor>x\<rfloor> \<le> 0" using a by simp
    then show ?thesis using True by (simp add: round_half_even_def Let_def)
  next
    case False
    then have "\<lfloor>x\<rfloor> + 1 \<le> k" using f by simp
    then show ?thesis by (auto simp add: round_half_even_def Let_def)
  qed
qed

lemma round_half_even_mono:
  assumes "x \<le> y"
  shows "round_half_even x \<le> round_half_even y"
proof (cases "\<lfloor>x\<rfloor> = \<lfloor>y\<rfloor>")
  case True
  then have "x - of_int \<lfloor>x\<rfloor> \<le> y - of_int \<lfloor>y\<rfloor>" using assms by simp
  then show ?thesis
    using True by (auto simp add: round_half_even_def Let_def)
next
  case False
  have "\<lfloor>x\<rfloor> \<le> \<lfloor>y\<rfloor>" using assms by (rule floor_mono)
  then have "\<lfloor>x\<rfloor> + 1 \<le> \<lfloor>y\<rfloor>" using False by simp
  moreover have "round_half_even x \<le> \<lfloor>x\<rfloor> + 1"
    by (auto simp add: round_half_even_def Let_def)
  moreover have "\<lfloor>y\<rfloor> \<le> round_half_even y"
    by (auto simp add: round_half_even_def Let_def)
  ultimately show ?thesis by linarith
qed

text \<open>The significand of a positive number lies between \<open>2^52\<close> and \<open>2^53\<close>.\<close>

lemma significand_bounds:
  assumes "0 < x"
  shows "2 ^ 52 \<le> round_half_even (x / 2 powi (exponent x - 52))"
    and "round_half_even (x / 2 powi (exponent x - 52)) \<le> 2 ^ 53"
proof -
  have nz: "x \<noteq> 0" using assms by simp
  define s where "s = (2::real) powi (exponent x - 52)"
  have s: "0 < s" by (simp add: s_def)
  have lo: "(2::real) powi (exponent x) = 2 ^ 52 * s"
    by (simp add: s_def power_int_diff)
  have hi: "(2::real) powi (exponent x + 1) = 2 ^ 53 * s"
    by (simp add: s_def power_int_diff power_int_add)
  have "2 ^ 52 * s \<le> x"
    using exponent_le [OF nz] assms lo by simp
  then have "2 ^ 52 \<le> x / s"
    using s by (simp add: pos_le_divide_eq)
  then have "real_of_int (2 ^ 52) \<le> x / s" by simp
  then have a: "2 ^ 52 \<le> round_half_even (x / s)"
    by (rule round_half_even_ge)
  have "x < 2 ^ 53 * s"
    using exponent_gt [OF nz] assms hi by simp
  then have "x / s \<le> 2 ^ 53"
    using s by (simp add: pos_divide_le_eq)
  then have "x / s \<le> real_of_int (2 ^ 53)" by simp
  then have b: "round_half_even (x / s) \<le> 2 ^ 53"
    by (rule round_half_even_le)
  show "2 ^ 52 \<le> round_half_even (x / 2 powi (exponent x - 52))"
    using a by (simp add: s_def)
  show "round_half_even (x / 2 powi (exponent x - 52)) \<le> 2 ^ 53"
    using b by (simp add: s_def)
qed

lemma fl_bounds:
  assumes "0 < x"
  shows "2 powi (exponent x) \<le> fl x" and "fl x \<le> 2 powi (exponent x + 1)"
proof -
  have nz: "x \<noteq> 0" using assms by simp
  define s where "s = (2::real) powi (exponent x - 52)"
  define r where "r = round_half_even (x / s)"
  have s: "0 < s" by (simp add: s_def)
  have lo: "(2::real) powi (exponent x) = 2 ^ 52 * s"
    by (simp add: s_def power_int_diff)
  have hi: "(2::real) powi (exponent x + 1) = 2 ^ 53 * s"
    by (simp add: s_def power_int_diff power_int_add)
  have f: "fl x = of_int r * s"
    using nz by (simp add: fl_def r_def s_def)
  have "2 ^ 52 \<le> r" and "r \<le> 2 ^ 53"
    using significand_bounds [OF assms] by (simp_all add: r_def s_def)
  then have "real_of_int (2 ^ 52) \<le> real_of_int r" and "real_of_int r \<le> real_of_int (2 ^ 53)"
    by (simp_all only: of_int_le_iff)
  then have "2 ^ 52 * s \<le> of_int r * s" and "of_int r * s \<le> 2 ^ 53 * s"
    using s by simp_all
  then show "2 powi (exponent x) \<le> fl x" and "fl x \<le> 2 powi (exponent x + 1)"
    by (simp_all only: f lo hi)
qed

lemma fl_mono_pos:
  assumes "0 < x" and "x \<le> y"
  shows "fl x \<le> fl y"
proof -
  have y: "0 < y" using assms by simp
  have nzx: "x \<noteq> 0" and nzy: "y \<noteq> 0" using assms by simp_all
  have "(2::real) powi (exponent x) < 2 powi (exponent y + 1)"
    using exponent_le [OF nzx] exponent_gt [OF nzy] assms by simp
  then have "exponent x < exponent y + 1" by (rule powi2_less_imp)
  then have le: "exponent x \<le> exponent y" by simp
  show ?thesis
  proof (cases "exponent x = exponent y")
    case True
    define s where "s = (2::real) powi (exponent x - 52)"
    have s: "0 < s" by (simp add: s_def)
    have "x / s \<le> y / s" using assms s by (simp add: divide_right_mono)
    then have "round_half_even (x / s) \<le> round_half_even (y / s)"
      by (rule round_half_even_mono)
    then have "real_of_int (round_half_even (x / s)) * s \<le> real_of_int (round_half_even (y / s)) * s"
      using s by simp
    then show ?thesis
      using nzx nzy True by (simp add: fl_def s_def)
  next
    case False
    then have "exponent x + 1 \<le> exponent y" using le by simp
    then have "(2::real) powi (exponent x + 1) \<le> 2 powi (exponent y)"
      by (simp add: power_int_increasing)
    then show ?thesis
      using fl_bounds(2) [OF assms(1)] fl_bounds(1) [OF y] by linarith
  qed
qed

text \<open>A rounded number is representable: rounding it again changes nothing.\<close>

lemma fl_idem_pos:
  assumes "0 < x"
  shows "fl (fl x) = fl x"
proof -
  have nz: "x \<noteq> 0" using assms by simp
  define e where "e = exponent x"
  define s where "s = (2::real) powi (e - 52)"
  define r where "r = round_half_even (x / s)"
  have s: "0 < s" by (simp add: s_def)
  have f: "fl x = of_int r * s"
    using nz by (simp add: fl_def r_def s_def e_def)
  have r: "2 ^ 52 \<le> r" "r \<le> 2 ^ 53"
    using significand_bounds [OF assms] by (simp_all add: r_def s_def e_def)
  have fp: "0 < fl x" using assms by (rule fl_pos)
  then have fnz: "fl x \<noteq> 0" by simp
  have lo: "(2::real) powi e = 2 ^ 52 * s"
    by (simp add: s_def power_int_diff)
  have hi: "(2::real) powi (e + 1) = 2 ^ 53 * s"
    by (simp add: s_def power_int_diff power_int_add)
  show ?thesis
  proof (cases "r = 2 ^ 53")
    case True
    have v: "fl x = 2 powi (e + 1)"
      by (simp add: f True hi)
    have "2 powi (e + 1) \<le> \<bar>fl x\<bar>" "\<bar>fl x\<bar> < 2 powi (e + 1 + 1)"
      by (simp_all add: v power_int_add)
    then have ex: "exponent (fl x) = e + 1" by (rule exponent_unique)
    have "(2::real) powi (e + 1 - 52) = 2 * s"
      by (simp add: s_def power_int_diff power_int_add)
    then have q: "fl x / 2 powi (e + 1 - 52) = real_of_int (2 ^ 52)"
      using s by (simp add: v hi)
    have "fl (fl x) = of_int (round_half_even (fl x / 2 powi (e + 1 - 52))) * 2 powi (e + 1 - 52)"
      using fnz by (simp only: fl_def [of "fl x"] ex if_False)
    also have "\<dots> = of_int (2 ^ 52) * 2 powi (e + 1 - 52)"
      by (simp only: q round_half_even_of_int)
    also have "\<dots> = fl x"
      by (simp add: v power_int_diff power_int_add)
    finally show ?thesis .
  next
    case False
    then have "r + 1 \<le> 2 ^ 53" using r by simp
    then have "real_of_int (r + 1) \<le> real_of_int (2 ^ 53)"
      by (simp only: of_int_le_iff)
    then have "real_of_int r < 2 ^ 53" by simp
    then have u: "of_int r * s < 2 ^ 53 * s" using s by simp
    have "real_of_int (2 ^ 52) \<le> real_of_int r" using r(1) by (simp only: of_int_le_iff)
    then have l: "2 ^ 52 * s \<le> of_int r * s" using s by simp
    have "2 powi e \<le> \<bar>fl x\<bar>" "\<bar>fl x\<bar> < 2 powi (e + 1)"
      using l u fp by (simp_all add: f lo hi)
    then have ex: "exponent (fl x) = e" by (rule exponent_unique)
    have q: "fl x / 2 powi (e - 52) = real_of_int r"
      using s by (simp add: f s_def)
    have "fl (fl x) = of_int (round_half_even (fl x / 2 powi (e - 52))) * 2 powi (e - 52)"
      using fnz by (simp only: fl_def [of "fl x"] ex if_False)
    also have "\<dots> = of_int r * 2 powi (e - 52)"
      by (simp only: q round_half_even_of_int)
    also have "\<dots> = fl x"
      by (simp add: f s_def)
    finally show ?thesis .
  qed
qed

subsection \<open>Sample counts\<close>

lemma length_concat_replicate: "length (concat (replicate n xs)) = n * length xs"
  by (induction n) auto

lemma valid_counts_nonneg:
  assumes "valid_params w"
  shows "0 \<le> trigger_samples w" and "0 \<le> interval_samples w"
    and "0 \<le> initial_delay_samples w"
proof -
  have "0 \<le> fmul (trigger_duration w) (sampling_rate w)"
    and "0 \<le> fmul (inter_trigger_interval w) (sampling_rate w)"
    and "0 \<le> fmul (initial_trigger_delay w) (sampling_rate w)"
    using assms by (simp_all add: valid_params_def fmul_nonneg)
  then show "0 \<le> trigger_samples w" and "0 \<le> interval_samples w"
    and "0 \<le> initial_delay_samples w"
    by (simp_all add: trigger_samples_def interval_samples_def initial_delay_samples_def
        py_int_def)
qed

text \<open>
  C3 (as amended). For all valid parameters, \<^verbatim>\<open>samples_per_cycle\<close> is the sum of the
  trigger and interval sample counts, and every sample count (initial delay, trigger,
  interval) is \<^verbatim>\<open>int(duration * sampling_rate)\<close>: the double-precision product truncated
  to an integer, which for these non-negative products is its floor. Such a count is a
  round-to-nearest value of the product when the fractional part of the product is below
  one half, and is not one when it is above.
\<close>

theorem sample_counts_truncate:
  assumes "valid_params w"
  shows "samples_per_cycle w = trigger_samples w + interval_samples w
     \<and> trigger_samples w = \<lfloor>fmul (trigger_duration w) (sampling_rate w)\<rfloor>
     \<and> interval_samples w = \<lfloor>fmul (inter_trigger_interval w) (sampling_rate w)\<rfloor>
     \<and> initial_delay_samples w = \<lfloor>fmul (initial_trigger_delay w) (sampling_rate w)\<rfloor>
     \<and> (frac (fmul (trigger_duration w) (sampling_rate w)) < 1 / 2 \<longrightarrow>
          spec_round_to_nearest (trigger_samples w)
            (fmul (trigger_duration w) (sampling_rate w)))
     \<and> (1 / 2 < frac (fmul (trigger_duration w) (sampling_rate w)) \<longrightarrow>
          \<not> spec_round_to_nearest (trigger_samples w)
            (fmul (trigger_duration w) (sampling_rate w)))
     \<and> (frac (fmul (inter_trigger_interval w) (sampling_rate w)) < 1 / 2 \<longrightarrow>
          spec_round_to_nearest (interval_samples w)
            (fmul (inter_trigger_interval w) (sampling_rate w)))
     \<and> (1 / 2 < frac (fmul (inter_trigger_interval w) (sampling_rate w)) \<longrightarrow>
          \<not> spec_round_to_nearest (interval_samples w)
            (fmul (inter_trigger_interval w) (sampling_rate w)))
     \<and> (frac (fmul (initial_trigger_delay w) (sampling_rate w)) < 1 / 2 \<longrightarrow>
          spec_round_to_nearest (initial_delay_samples w)
            (fmul (initial_trigger_delay w) (sampling_rate w)))
     \<and> (1 / 2 < frac (fmul (initial_trigger_delay w) (sampling_rate w)) \<longrightarrow>
          \<not> spec_round_to_nearest (initial_delay_samples w)
            (fmul (initial_trigger_delay w) (sampling_rate w)))"
proof -
  have near: "(frac x < 1 / 2 \<longrightarrow> spec_round_to_nearest \<lfloor>x\<rfloor> x)
      \<and> (1 / 2 < frac x \<longrightarrow> \<not> spec_round_to_nearest \<lfloor>x\<rfloor> x)" for x :: real
  proof -
    have "of_int \<lfloor>x\<rfloor> \<le> x" by simp
    then have "\<bar>of_int \<lfloor>x\<rfloor> - x\<bar> = x - of_int \<lfloor>x\<rfloor>" by simp
    then show ?thesis by (simp add: spec_round_to_nearest_def frac_def)
  qed
  have t: "0 \<le> fmul (trigger_duration w) (sampling_rate w)"
    and i: "0 \<le> fmul (inter_trigger_interval w) (sampling_rate w)"
    and d: "0 \<le> fmul (initial_trigger_delay w) (sampling_rate w)"
    using assms by (simp_all add: valid_params_def fmul_nonneg)
  have ts: "trigger_samples w = \<lfloor>fmul (trigger_duration w) (sampling_rate w)\<rfloor>"
    using t by (simp add: trigger_samples_def py_int_nonneg)
  have isv: "interval_samples w = \<lfloor>fmul (inter_trigger_interval w) (sampling_rate w)\<rfloor>"
    using i by (simp add: interval_samples_def py_int_nonneg)
  have ds: "initial_delay_samples w = \<lfloor>fmul (initial_trigger_delay w) (sampling_rate w)\<rfloor>"
    using d by (simp add: initial_delay_samples_def py_int_nonneg)
  show ?thesis
    using near [of "fmul (trigger_duration w) (sampling_rate w)"]
      near [of "fmul (inter_trigger_interval w) (sampling_rate w)"]
      near [of "fmul (initial_trigger_delay w) (sampling_rate w)"]
    by (simp only: ts isv ds samples_per_cycle_def) simp
qed

lemma example_products:
  "fmul (fl (29 / 100)) 100 = 8162774324609023 / 2 ^ 48"
  "fmul 20 100 = 2000"
  "fmul 5 100 = 500"
  "fmul (fl (323 / 10)) 1000 = 8878556394291199 / 2 ^ 38"
  "fmul (fl (2 / 10)) 1000 = 200"
  "fmul 20 1000 = 20000"
  "fmul (fl (1 / 1000)) 1700 = 7656119366529843 / 2 ^ 52"
  "fmul 20 1700 = 34000"
  "fmul 5 1700 = 8500"
  "fmul (fl (3 / 100)) 100 = 3"
  "fmul (fl (1 / 1000)) 1000 = 1"
  by (simp_all add: fmul_def) code_simp+

theorem sample_counts_truncate_witness:
  "valid_params (DAQWorker_init ''Dev2/ao0'' 100 (fl (29 / 100)) 20 True 5 5)
     \<and> trigger_samples (DAQWorker_init ''Dev2/ao0'' 100 (fl (29 / 100)) 20 True 5 5) = 28
     \<and> samples_per_cycle (DAQWorker_init ''Dev2/ao0'' 100 (fl (29 / 100)) 20 True 5 5) = 2028
     \<and> valid_params (DAQWorker_init ''Dev2/ao0'' 1000 (fl (2 / 10)) 20 True 5 (fl (323 / 10)))
     \<and> initial_delay_samples
          (DAQWorker_init ''Dev2/ao0'' 1000 (fl (2 / 10)) 20 True 5 (fl (323 / 10))) = 32299"
proof -
  define w0 where "w0 = DAQWorker_init ''Dev2/ao0'' 100 (fl (29 / 100)) 20 True 5 5"
  define w1 where "w1 = DAQWorker_init ''Dev2/ao0'' 1000 (fl (2 / 10)) 20 True 5 (fl (323 / 10))"
  have p0: "0 < fl (29 / 100)" and p1: "0 < fl (2 / 10)" and p2: "0 \<le> fl (323 / 10)"
    by code_simp+
  have v0: "valid_params w0"
    using p0 by (simp add: w0_def valid_params_def DAQWorker_init_def)
  have v1: "valid_params w1"
    using p1 p2 by (simp add: w1_def valid_params_def DAQWorker_init_def)
  have a: "trigger_samples w0 = 28 \<and> samples_per_cycle w0 = 2028"
    using sample_counts_truncate [OF v0]
    by (simp add: w0_def DAQWorker_init_def example_products)
  have b: "initial_delay_samples w1 = 32299"
    using sample_counts_truncate [OF v1]
    by (simp add: w1_def DAQWorker_init_def example_products)
  from v0 v1 a b have "valid_params w0 \<and> trigger_samples w0 = 28 \<and> samples_per_cycle w0 = 2028
      \<and> valid_params w1 \<and> initial_delay_samples w1 = 32299"
    by simp
  then show ?thesis
    unfolding w0_def w1_def .
qed

text \<open>
  The claim as stated, "every sample count is round-to-nearest", fails: with a trigger
  duration of 0.001 s at 1700 Hz the float product is 1.7, the code computes 1 sample, and 1
  is not a nearest integer of the float product, nor of the exact product (2 is).
\<close>

theorem sample_counts_not_rounded:
  "valid_params (DAQWorker_init ''Dev2/ao0'' 1700 (fl (1 / 1000)) 20 True 5 5)
     \<and> trigger_samples (DAQWorker_init ''Dev2/ao0'' 1700 (fl (1 / 1000)) 20 True 5 5) = 1
     \<and> \<not> spec_round_to_nearest
          (trigger_samples (DAQWorker_init ''Dev2/ao0'' 1700 (fl (1 / 1000)) 20 True 5 5))
          (fmul (fl (1 / 1000)) 1700)
     \<and> \<not> spec_round_to_nearest
          (trigger_samples (DAQWorker_init ''Dev2/ao0'' 1700 (fl (1 / 1000)) 20 True 5 5))
          (fl (1 / 1000) * 1700)"
proof -
  have f: "fl (1 / 1000) = 1152921504606847 / 2 ^ 60"
    by code_simp
  show ?thesis
    by (simp add: valid_params_def DAQWorker_init_def trigger_samples_def py_int_def
        spec_round_to_nearest_def example_products) (simp add: f)
qed

subsection \<open>Buffers\<close>

lemma Sig_cycle_valid:
  assumes "valid_params w"
  shows "Sig_cycle can_alloc w =
    (if can_alloc (nat (samples_per_cycle w))
     then Inr (replicate (nat (trigger_samples w)) 2 @ replicate (nat (interval_samples w)) 0)
     else Inl MemoryError)"
proof -
  have t: "0 \<le> trigger_samples w" and i: "0 \<le> interval_samples w"
    using valid_counts_nonneg [OF assms] by simp_all
  have m: "min (trigger_samples w) (trigger_samples w + interval_samples w) = trigger_samples w"
    using i by simp
  have d: "nat (trigger_samples w + interval_samples w) - nat (trigger_samples w)
      = nat (interval_samples w)"
    using t i by linarith
  show ?thesis
    using t i
    by (simp add: Sig_cycle_def np_zeros_def samples_per_cycle_def assign_prefix_def
        Let_def m d)
qed

lemma finite_data_valid:
  assumes "valid_params w" and "\<not> infinite w"
  shows "finite_data can_alloc w cyc =
    (if can_alloc (nat (initial_delay_samples w))
        \<and> (cyc = [] \<or> can_alloc (nat (nb_triggers w) * length cyc))
        \<and> can_alloc (nat (initial_delay_samples w) + nat (nb_triggers w) * length cyc)
     then Inr (replicate (nat (initial_delay_samples w)) 0
               @ concat (replicate (nat (nb_triggers w)) cyc))
     else Inl MemoryError)"
proof -
  have d: "0 \<le> initial_delay_samples w"
    using valid_counts_nonneg [OF assms(1)] by simp
  have n: "0 < nb_triggers w"
    using assms by (simp add: valid_params_def)
  show ?thesis
    using d n
    by (simp add: finite_data_def np_zeros_def np_tile_def np_concatenate_def
        length_concat_replicate)
qed

text \<open>
  C6. For all valid parameters, the one-cycle buffer, whenever numpy can allocate it, has
  length \<^verbatim>\<open>samples_per_cycle\<close> and is two-level: 2.0 (the active voltage) for the first
  \<^verbatim>\<open>trigger_samples\<close> samples and 0.0 (the neutral voltage) for every sample after them.
  It is built exactly when an array of \<^verbatim>\<open>samples_per_cycle\<close> samples can be allocated;
  otherwise \<^verbatim>\<open>np.zeros\<close> raises MemoryError.
\<close>

theorem Sig_cycle_two_level:
  assumes "valid_params w"
  shows "(\<forall>buf. Sig_cycle can_alloc w = Inr buf \<longrightarrow>
            int (length buf) = samples_per_cycle w
          \<and> buf = replicate (nat (trigger_samples w)) 2 @ replicate (nat (interval_samples w)) 0
          \<and> (\<forall>i<length buf. buf ! i = (if int i < trigger_samples w then 2 else 0)))
     \<and> ((\<exists>buf. Sig_cycle can_alloc w = Inr buf) \<longleftrightarrow> can_alloc (nat (samples_per_cycle w)))
     \<and> (\<forall>e. Sig_cycle can_alloc w = Inl e \<longrightarrow> e = MemoryError)"
proof -
  define buf :: "real list"
    where "buf = replicate (nat (trigger_samples w)) 2 @ replicate (nat (interval_samples w)) 0"
  have t: "0 \<le> trigger_samples w" and i: "0 \<le> interval_samples w"
    using valid_counts_nonneg [OF assms] by simp_all
  have len: "int (length buf) = samples_per_cycle w"
    using t i by (simp add: buf_def samples_per_cycle_def)
  have nth: "buf ! k = (if int k < trigger_samples w then 2 else 0)" if "k < length buf" for k
  proof (cases "int k < trigger_samples w")
    case True
    then have "k < nat (trigger_samples w)" by linarith
    then show ?thesis using True by (simp add: buf_def nth_append)
  next
    case False
    then have a: "\<not> k < nat (trigger_samples w)" by linarith
    have "k - nat (trigger_samples w) < nat (interval_samples w)"
      using that a by (simp add: buf_def)
    then show ?thesis using False a by (simp add: buf_def nth_append)
  qed
  have s: "Sig_cycle can_alloc w =
      (if can_alloc (nat (samples_per_cycle w)) then Inr buf else Inl MemoryError)"
    using Sig_cycle_valid [OF assms] by (simp add: buf_def)
  have a: "\<forall>b. Sig_cycle can_alloc w = Inr b \<longrightarrow>
            int (length b) = samples_per_cycle w
          \<and> b = buf
          \<and> (\<forall>i<length b. b ! i = (if int i < trigger_samples w then 2 else 0))"
    using len nth by (auto simp add: s split: if_splits)
  have b: "(\<exists>b. Sig_cycle can_alloc w = Inr b) \<longleftrightarrow> can_alloc (nat (samples_per_cycle w))"
    by (simp add: s)
  have c: "\<forall>e. Sig_cycle can_alloc w = Inl e \<longrightarrow> e = MemoryError"
    by (auto simp add: s split: if_splits)
  show ?thesis
    using a b c unfolding buf_def by (intro conjI)
qed

theorem Sig_cycle_two_level_witness:
  "valid_params (DAQWorker_init ''Dev2/ao0'' 100 (fl (29 / 100)) (fl (3 / 100)) True 5 5)
     \<and> trigger_samples
         (DAQWorker_init ''Dev2/ao0'' 100 (fl (29 / 100)) (fl (3 / 100)) True 5 5) = 28
     \<and> Sig_cycle (\<lambda>n. True)
         (DAQWorker_init ''Dev2/ao0'' 100 (fl (29 / 100)) (fl (3 / 100)) True 5 5)
         = Inr (replicate 28 2 @ replicate 3 0)
     \<and> Sig_cycle (\<lambda>n. n < 31)
         (DAQWorker_init ''Dev2/ao0'' 100 (fl (29 / 100)) (fl (3 / 100)) True 5 5)
         = Inl MemoryError"
proof -
  define w0 where "w0 = DAQWorker_init ''Dev2/ao0'' 100 (fl (29 / 100)) (fl (3 / 100)) True 5 5"
  have p0: "0 < fl (29 / 100)" and p1: "0 \<le> fl (3 / 100)"
    by code_simp+
  have v: "valid_params w0"
    using p0 p1 by (simp add: w0_def valid_params_def DAQWorker_init_def)
  have ts: "trigger_samples w0 = 28"
    by (simp add: w0_def trigger_samples_def py_int_def DAQWorker_init_def example_products)
  have iv: "interval_samples w0 = 3"
    by (simp add: w0_def interval_samples_def py_int_def DAQWorker_init_def example_products)
  have sp: "samples_per_cycle w0 = 31"
    by (simp add: samples_per_cycle_def ts iv)
  have a: "Sig_cycle (\<lambda>n. True) w0 = Inr (replicate 28 2 @ replicate 3 0)"
    using Sig_cycle_two_level [OF v, of "\<lambda>n. True"] by (auto simp add: ts iv)
  have b: "Sig_cycle (\<lambda>n. n < 31) w0 = Inl MemoryError"
  proof (cases "Sig_cycle (\<lambda>n. n < 31) w0")
    case (Inl e)
    then show ?thesis
      using Sig_cycle_two_level [OF v, of "\<lambda>n. n < 31"] by simp
  next
    case (Inr buf)
    then show ?thesis
      using Sig_cycle_two_level [OF v, of "\<lambda>n. n < 31"] by (simp add: sp)
  qed
  have "valid_params w0 \<and> trigger_samples w0 = 28
      \<and> Sig_cycle (\<lambda>n. True) w0 = Inr (replicate 28 2 @ replicate 3 0)
      \<and> Sig_cycle (\<lambda>n. n < 31) w0 = Inl MemoryError"
    using v ts a b by simp
  then show ?thesis
    unfolding w0_def .
qed

text \<open>
  C7. In finite mode, for valid parameters, the playback buffer, whenever numpy can
  allocate it, is the delay buffer (\<^verbatim>\<open>initial_delay_samples\<close> zeros) followed by exactly
  \<^verbatim>\<open>nb_triggers\<close> copies of the one-cycle buffer, and its length is
  \<^verbatim>\<open>initial_delay_samples + nb_triggers * samples_per_cycle\<close>. It is built exactly when
  the delay buffer, the tiled cycles (if the cycle is not empty) and the joined array can
  be allocated; otherwise the construction raises MemoryError.
\<close>

theorem finite_data_concat:
  assumes "valid_params w" and "\<not> infinite w" and "Sig_cycle can_alloc w = Inr cyc"
  shows "(\<forall>data. finite_data can_alloc w cyc = Inr data \<longrightarrow>
            data = replicate (nat (initial_delay_samples w)) 0
                   @ concat (replicate (nat (nb_triggers w)) cyc)
          \<and> int (length data) = initial_delay_samples w + nb_triggers w * samples_per_cycle w)
     \<and> ((\<exists>data. finite_data can_alloc w cyc = Inr data) \<longleftrightarrow>
            can_alloc (nat (initial_delay_samples w))
          \<and> (cyc = [] \<or> can_alloc (nat (nb_triggers w) * length cyc))
          \<and> can_alloc (nat (initial_delay_samples w) + nat (nb_triggers w) * length cyc))
     \<and> (\<forall>e. finite_data can_alloc w cyc = Inl e \<longrightarrow> e = MemoryError)"
proof -
  define data :: "real list"
    where "data = replicate (nat (initial_delay_samples w)) 0
              @ concat (replicate (nat (nb_triggers w)) cyc)"
  have t: "0 \<le> trigger_samples w" and i: "0 \<le> interval_samples w"
    and d: "0 \<le> initial_delay_samples w"
    using valid_counts_nonneg [OF assms(1)] by simp_all
  have n: "0 < nb_triggers w"
    using assms by (simp add: valid_params_def)
  have "cyc = replicate (nat (trigger_samples w)) 2 @ replicate (nat (interval_samples w)) 0"
    using assms(3) Sig_cycle_valid [OF assms(1), of can_alloc] by (simp split: if_splits)
  then have lc: "int (length cyc) = samples_per_cycle w"
    using t i by (simp add: samples_per_cycle_def)
  have "int (length data) = initial_delay_samples w + int (nat (nb_triggers w)) * int (length cyc)"
    using d by (simp add: data_def length_concat_replicate)
  then have len: "int (length data) = initial_delay_samples w + nb_triggers w * samples_per_cycle w"
    using n lc by simp
  have fd: "finite_data can_alloc w cyc =
      (if can_alloc (nat (initial_delay_samples w))
          \<and> (cyc = [] \<or> can_alloc (nat (nb_triggers w) * length cyc))
          \<and> can_alloc (nat (initial_delay_samples w) + nat (nb_triggers w) * length cyc)
       then Inr data else Inl MemoryError)"
    using finite_data_valid [OF assms(1,2), of can_alloc cyc] by (simp add: data_def)
  have a: "\<forall>b. finite_data can_alloc w cyc = Inr b \<longrightarrow>
            b = data
          \<and> int (length b) = initial_delay_samples w + nb_triggers w * samples_per_cycle w"
    using len by (auto simp add: fd split: if_splits)
  have b: "(\<exists>b. finite_data can_alloc w cyc = Inr b) \<longleftrightarrow>
            can_alloc (nat (initial_delay_samples w))
          \<and> (cyc = [] \<or> can_alloc (nat (nb_triggers w) * length cyc))
          \<and> can_alloc (nat (initial_delay_samples w) + nat (nb_triggers w) * length cyc)"
    by (simp add: fd)
  have c: "\<forall>e. finite_data can_alloc w cyc = Inl e \<longrightarrow> e = MemoryError"
    by (auto simp add: fd split: if_splits)
  show ?thesis
    using a b c unfolding data_def by (intro conjI)
qed

theorem finite_data_concat_witness:
  "valid_params
     (DAQWorker_init ''Dev2/ao0'' 1000 (fl (1 / 1000)) (fl (1 / 1000)) False 2 (fl (1 / 1000)))
     \<and> \<not> infinite
         (DAQWorker_init ''Dev2/ao0'' 1000 (fl (1 / 1000)) (fl (1 / 1000)) False 2 (fl (1 / 1000)))
     \<and> Sig_cycle (\<lambda>n. True)
         (DAQWorker_init ''Dev2/ao0'' 1000 (fl (1 / 1000)) (fl (1 / 1000)) False 2 (fl (1 / 1000)))
         = Inr [2, 0]
     \<and> finite_data (\<lambda>n. True)
         (DAQWorker_init ''Dev2/ao0'' 1000 (fl (1 / 1000)) (fl (1 / 1000)) False 2 (fl (1 / 1000)))
         [2, 0]
         = Inr [0, 2, 0, 2, 0]"
proof -
  define w0 where
    "w0 = DAQWorker_init ''Dev2/ao0'' 1000 (fl (1 / 1000)) (fl (1 / 1000)) False 2 (fl (1 / 1000))"
  have p: "0 < fl (1 / 1000)"
    by code_simp
  have v: "valid_params w0"
    using p by (simp add: w0_def valid_params_def DAQWorker_init_def)
  have f: "\<not> infinite w0"
    by (simp add: w0_def DAQWorker_init_def)
  have c: "Sig_cycle (\<lambda>n. True) w0 = Inr [2, 0]"
    by (simp add: w0_def Sig_cycle_def np_zeros_def samples_per_cycle_def trigger_samples_def
        interval_samples_def py_int_def assign_prefix_def DAQWorker_init_def example_products)
  have d: "initial_delay_samples w0 = 1"
    by (simp add: w0_def initial_delay_samples_def py_int_def DAQWorker_init_def
        example_products)
  have n: "nb_triggers w0 = 2"
    by (simp add: w0_def DAQWorker_init_def)
  have "finite_data (\<lambda>n. True) w0 [2, 0] = Inr [0, 2, 0, 2, 0]"
    using finite_data_concat [OF v f c] by (auto simp add: d n numeral_2_eq_2)
  with v f c have "valid_params w0 \<and> \<not> infinite w0 \<and> Sig_cycle (\<lambda>n. True) w0 = Inr [2, 0]
      \<and> finite_data (\<lambda>n. True) w0 [2, 0] = Inr [0, 2, 0, 2, 0]"
    by simp
  then show ?thesis
    unfolding w0_def .
qed

subsection \<open>State indicator\<close>

lemma trigger_or_interval_not_Done: "trigger_or_interval t c x \<noteq> (''Done'', r)"
  by (simp add: trigger_or_interval_def)

lemma py_fmod_period:
  assumes "0 < y" and "0 \<le> x"
  shows "py_fmod (x + of_nat k * y) y = py_fmod x y"
proof -
  have q: "0 \<le> x / y" using assms by simp
  have "0 \<le> x + of_nat k * y" using assms by simp
  then have q': "0 \<le> (x + of_nat k * y) / y" using assms by simp
  have "(x + of_nat k * y) / y = x / y + of_int (int k)"
    using assms by (simp add: field_simps)
  then have "\<lfloor>(x + of_nat k * y) / y\<rfloor> = \<lfloor>x / y\<rfloor> + int k"
    by (simp only: floor_add_int)
  then have "py_int ((x + of_nat k * y) / y) = py_int (x / y) + int k"
    using q q' by (simp only: py_int_nonneg)
  then have "c_fmod (x + of_nat k * y) y = c_fmod x y"
    by (simp add: c_fmod_def algebra_simps)
  then show ?thesis
    by (simp add: py_fmod_def)
qed

lemma indicator_total:
  assumes "0 < p_trigger p" and "0 \<le> p_interval p"
  shows "\<exists>text countdown. update_state_indicator p elapsed = Inr (text, countdown)"
proof -
  have "0 < fadd (p_trigger p) (p_interval p)"
    using assms by (rule fadd_pos)
  then have "fadd (p_trigger p) (p_interval p) \<noteq> 0" by simp
  then show ?thesis
    by (simp add: update_state_indicator_def Let_def py_fmod_def trigger_or_interval_def)
qed

text \<open>
  C4 (as amended). In finite mode with a positive count, a positive trigger and a
  non-negative interval duration, the indicator shows "Done" exactly when
  \<^verbatim>\<open>elapsed >= initial_delay\<close> and the double-precision difference
  \<^verbatim>\<open>elapsed - initial_delay\<close> is at least the double-precision product
  \<^verbatim>\<open>nb_triggers * (trigger + interval)\<close>. It shows "Done" at every elapsed time from
  \<^verbatim>\<open>initial_delay\<close> plus that product on, and never before \<^verbatim>\<open>initial_delay\<close>. When the
  sum, the product and the difference are computed without rounding, it shows "Done"
  exactly when \<^verbatim>\<open>elapsed >= initial_delay + nb_triggers * (trigger + interval)\<close>.
\<close>

theorem finite_done_iff:
  assumes "\<not> p_infinite p" and "0 < p_nb_triggers p"
    and "0 < p_trigger p" and "0 \<le> p_interval p"
  shows "(update_state_indicator p elapsed = Inr (''Done'', None) \<longleftrightarrow>
            p_initial_trigger_delay p \<le> elapsed
          \<and> fmul (float_of_int (p_nb_triggers p)) (fadd (p_trigger p) (p_interval p))
              \<le> fsub elapsed (p_initial_trigger_delay p))
     \<and> (p_initial_trigger_delay p
            + fmul (float_of_int (p_nb_triggers p)) (fadd (p_trigger p) (p_interval p))
          \<le> elapsed \<longrightarrow>
        update_state_indicator p elapsed = Inr (''Done'', None))
     \<and> (elapsed < p_initial_trigger_delay p \<longrightarrow>
        update_state_indicator p elapsed \<noteq> Inr (''Done'', None))
     \<and> (fadd (p_trigger p) (p_interval p) = p_trigger p + p_interval p
        \<and> fmul (float_of_int (p_nb_triggers p)) (p_trigger p + p_interval p)
            = of_int (p_nb_triggers p) * (p_trigger p + p_interval p)
        \<and> fsub elapsed (p_initial_trigger_delay p) = elapsed - p_initial_trigger_delay p \<longrightarrow>
        (update_state_indicator p elapsed = Inr (''Done'', None) \<longleftrightarrow>
           p_initial_trigger_delay p + of_int (p_nb_triggers p) * (p_trigger p + p_interval p)
           \<le> elapsed))"
proof -
  define d where "d = p_initial_trigger_delay p"
  define c where "c = fadd (p_trigger p) (p_interval p)"
  define T where "T = fmul (float_of_int (p_nb_triggers p)) c"
  have c: "0 < c"
    using assms(3,4) unfolding c_def by (rule fadd_pos)
  have n: "0 < float_of_int (p_nb_triggers p)"
    using assms(2) by (simp add: float_of_int_def fl_pos)
  have prod: "0 < float_of_int (p_nb_triggers p) * c"
    using n c by simp
  have T: "0 < T"
    using prod by (simp add: T_def fmul_def fl_pos)
  have Tid: "fl T = T"
    using fl_idem_pos [OF prod] by (simp add: T_def fmul_def)
  have a: "update_state_indicator p elapsed = Inr (''Done'', None) \<longleftrightarrow>
      d \<le> elapsed \<and> T \<le> fsub elapsed d"
  proof (cases "elapsed < d")
    case True
    then show ?thesis
      by (simp add: update_state_indicator_def Let_def d_def)
  next
    case False
    then show ?thesis
      using assms(1)
      by (auto simp add: update_state_indicator_def Let_def trigger_or_interval_not_Done
          d_def T_def c_def split: sum.splits)
  qed
  have b: "update_state_indicator p elapsed = Inr (''Done'', None)" if "d + T \<le> elapsed"
  proof -
    have le: "T \<le> elapsed - d" using that by simp
    have "fl T \<le> fl (elapsed - d)"
      using T le by (rule fl_mono_pos)
    then have "T \<le> fsub elapsed d"
      by (simp add: Tid fsub_def)
    moreover have "d \<le> elapsed" using that T by simp
    ultimately show ?thesis using a by simp
  qed
  have e: "update_state_indicator p elapsed \<noteq> Inr (''Done'', None)" if "elapsed < d"
    using that a by simp
  have x: "update_state_indicator p elapsed = Inr (''Done'', None) \<longleftrightarrow>
      d + of_int (p_nb_triggers p) * (p_trigger p + p_interval p) \<le> elapsed"
    if "c = p_trigger p + p_interval p"
      and "fmul (float_of_int (p_nb_triggers p)) (p_trigger p + p_interval p)
            = of_int (p_nb_triggers p) * (p_trigger p + p_interval p)"
      and "fsub elapsed d = elapsed - d"
  proof -
    have Te: "T = of_int (p_nb_triggers p) * (p_trigger p + p_interval p)"
      using that(1,2) by (simp add: T_def)
    show ?thesis
      using a T by (auto simp add: that(3) Te [symmetric])
  qed
  show ?thesis
    using a b e x unfolding d_def T_def c_def by (intro conjI impI) blast+
qed

theorem finite_done_iff_witness:
  "update_state_indicator
     \<lparr>p_device = ''Dev2'', p_channel = ''ao0'', p_sampling_rate = 1000,
      p_initial_trigger_delay = 0, p_trigger = fl (2 / 10), p_interval = 0,
      p_infinite = False, p_nb_triggers = 3\<rparr> (fl (6 / 10)) \<noteq> Inr (''Done'', None)
   \<and> update_state_indicator
     \<lparr>p_device = ''Dev2'', p_channel = ''ao0'', p_sampling_rate = 1000,
      p_initial_trigger_delay = 0, p_trigger = fl (2 / 10), p_interval = 0,
      p_infinite = False, p_nb_triggers = 3\<rparr> (1351079888211149 / 2 ^ 51)
       = Inr (''Done'', None)
   \<and> update_state_indicator
     \<lparr>p_device = ''Dev2'', p_channel = ''ao0'', p_sampling_rate = 1000,
      p_initial_trigger_delay = 1 / 2, p_trigger = 1 / 4, p_interval = 1 / 4,
      p_infinite = False, p_nb_triggers = 3\<rparr> 2 = Inr (''Done'', None)"
proof -
  define p0 where "p0 =
     \<lparr>p_device = ''Dev2'', p_channel = ''ao0'', p_sampling_rate = 1000,
      p_initial_trigger_delay = 0, p_trigger = fl (2 / 10), p_interval = 0,
      p_infinite = False, p_nb_triggers = 3\<rparr>"
  define p1 where "p1 =
     \<lparr>p_device = ''Dev2'', p_channel = ''ao0'', p_sampling_rate = 1000,
      p_initial_trigger_delay = 1 / 2, p_trigger = 1 / 4, p_interval = 1 / 4,
      p_infinite = False, p_nb_triggers = 3\<rparr>"
  have t: "0 < fl (2 / 10)"
    by (rule fl_pos) simp
  have h0: "\<not> p_infinite p0" "0 < p_nb_triggers p0" "0 < p_trigger p0" "0 \<le> p_interval p0"
    using t by (simp_all add: p0_def)
  have h1: "\<not> p_infinite p1" "0 < p_nb_triggers p1" "0 < p_trigger p1" "0 \<le> p_interval p1"
    by (simp_all add: p1_def)
  have r1: "\<not> fmul (float_of_int 3) (fadd (fl (2 / 10)) 0) \<le> fsub (fl (6 / 10)) 0"
    by code_simp
  have r2: "fmul (float_of_int 3) (fadd (fl (2 / 10)) 0) \<le> 1351079888211149 / 2 ^ 51"
    by code_simp
  have r3: "fadd (1 / 4) (1 / 4) = 1 / 2" "fmul (float_of_int 3) (1 / 2) = 3 / 2"
    "fsub 2 (1 / 2) = 3 / 2"
    by code_simp+
  have a: "update_state_indicator p0 (fl (6 / 10)) \<noteq> Inr (''Done'', None)"
    using finite_done_iff [OF h0, of "fl (6 / 10)"] r1
    by (simp add: p0_def)
  have b: "update_state_indicator p0 (1351079888211149 / 2 ^ 51) = Inr (''Done'', None)"
    using finite_done_iff [OF h0, of "1351079888211149 / 2 ^ 51"] r2
    by (simp add: p0_def)
  have c: "update_state_indicator p1 2 = Inr (''Done'', None)"
    using finite_done_iff [OF h1, of 2] r3
    by (simp add: p1_def)
  have "update_state_indicator p0 (fl (6 / 10)) \<noteq> Inr (''Done'', None)
      \<and> update_state_indicator p0 (1351079888211149 / 2 ^ 51) = Inr (''Done'', None)
      \<and> update_state_indicator p1 2 = Inr (''Done'', None)"
    using a b c by simp
  then show ?thesis
    unfolding p0_def p1_def .
qed

text \<open>
  The claim as stated fails: with an initial delay of 0.3 s, a trigger of 0.002 s, an
  interval of 0.1 s and 5 triggers, the indicator shows "Done" at the elapsed time
  0.8099999999999999, which is before \<^verbatim>\<open>initial_delay + N * cycle_duration\<close>, whether that
  instant is computed exactly or in double precision (0.81).
\<close>

theorem finite_done_before_instant:
  "update_state_indicator
     \<lparr>p_device = ''Dev2'', p_channel = ''ao0'', p_sampling_rate = 1000,
      p_initial_trigger_delay = fl (3 / 10), p_trigger = fl (2 / 1000),
      p_interval = fl (1 / 10), p_infinite = False, p_nb_triggers = 5\<rparr>
     (7295831396340203 / 2 ^ 53) = Inr (''Done'', None)
   \<and> 7295831396340203 / 2 ^ 53 < fl (3 / 10) + 5 * (fl (2 / 1000) + fl (1 / 10))
   \<and> 7295831396340203 / 2 ^ 53
       < fadd (fl (3 / 10)) (fmul (float_of_int 5) (fadd (fl (2 / 1000)) (fl (1 / 10))))"
  by code_simp

text \<open>
  C5 (as amended). For a positive trigger and a non-negative interval duration, the method
  raises nothing and the three labels it writes are determined by the parameters and the
  elapsed time alone: whatever the labels showed before, and whatever clock values gave the
  elapsed time. In infinite mode, once the initial delay has passed, adding \<open>k\<close> cycle
  durations (the double-precision \<^verbatim>\<open>trigger + interval\<close>) to the elapsed time changes
  neither the label nor the remaining time, provided that the two differences
  \<^verbatim>\<open>elapsed - initial_delay\<close> are computed without rounding.
\<close>

theorem indicator_pure_periodic:
  assumes "0 < p_trigger p" and "0 \<le> p_interval p"
  shows "(\<exists>text countdown. update_state_indicator p elapsed = Inr (text, countdown))
     \<and> (fsub now1 start1 = fsub now2 start2 \<longrightarrow>
          update_state_indicator_labels (Some start1) (Some p) now1 labels1
          = update_state_indicator_labels (Some start2) (Some p) now2 labels2)
     \<and> snd (update_state_indicator_labels (Some start1) (Some p) now1 labels1) = None
     \<and> (p_infinite p \<and> p_initial_trigger_delay p \<le> elapsed
        \<and> fsub elapsed (p_initial_trigger_delay p) = elapsed - p_initial_trigger_delay p
        \<and> fsub (elapsed + of_nat k * fadd (p_trigger p) (p_interval p))
             (p_initial_trigger_delay p)
            = elapsed + of_nat k * fadd (p_trigger p) (p_interval p)
              - p_initial_trigger_delay p \<longrightarrow>
          update_state_indicator p (elapsed + of_nat k * fadd (p_trigger p) (p_interval p))
          = update_state_indicator p elapsed)"
proof -
  define c where "c = fadd (p_trigger p) (p_interval p)"
  define d where "d = p_initial_trigger_delay p"
  have c: "0 < c"
    using assms unfolding c_def by (rule fadd_pos)
  have tot: "\<exists>text countdown. update_state_indicator p e = Inr (text, countdown)" for e
    using assms by (rule indicator_total)
  have lab: "update_state_indicator_labels (Some s) (Some p) n l
      = (case update_state_indicator p (fsub n s) of
           Inr (text, countdown) \<Rightarrow>
             (\<lparr>state_label = text, time_label = countdown,
               time_total_label = Some (fsub n s)\<rparr>, None))" for s n l
  proof -
    obtain lbl countdown where "update_state_indicator p (fsub n s) = Inr (lbl, countdown)"
      using tot [of "fsub n s"] by (elim exE)
    then show ?thesis
      by (simp add: update_state_indicator_labels_def Let_def)
  qed
  have pure: "update_state_indicator_labels (Some start1) (Some p) now1 labels1
      = update_state_indicator_labels (Some start2) (Some p) now2 labels2"
    if "fsub now1 start1 = fsub now2 start2"
    by (simp only: lab that)
  have noerr: "snd (update_state_indicator_labels (Some start1) (Some p) now1 labels1) = None"
  proof -
    obtain lbl countdown
      where "update_state_indicator p (fsub now1 start1) = Inr (lbl, countdown)"
      using tot [of "fsub now1 start1"] by (elim exE)
    then show ?thesis
      by (simp add: lab)
  qed
  have per: "update_state_indicator p (elapsed + of_nat k * c) = update_state_indicator p elapsed"
    if "p_infinite p" and "d \<le> elapsed" and "fsub elapsed d = elapsed - d"
      and "fsub (elapsed + of_nat k * c) d = elapsed + of_nat k * c - d"
  proof -
    have "0 \<le> real k * c" using c by simp
    then have late: "\<not> elapsed + real k * c < d"
      using that(2) by linarith
    have early: "\<not> elapsed < d"
      using that(2) by simp
    have nn: "0 \<le> elapsed - d" using that(2) by simp
    have shift: "elapsed + real k * c - d = (elapsed - d) + real k * c"
      by simp
    have m: "py_fmod (fsub (elapsed + real k * c) d) c = py_fmod (fsub elapsed d) c"
      by (simp only: that(3,4) shift py_fmod_period [OF c nn])
    show ?thesis
      using that(1) late early m
      by (simp add: update_state_indicator_def Let_def c_def [symmetric] d_def [symmetric])
  qed
  show ?thesis
    using tot [of elapsed] pure noerr per unfolding c_def d_def by (intro conjI impI) blast+
qed

theorem indicator_pure_periodic_witness:
  "update_state_indicator
     \<lparr>p_device = ''Dev2'', p_channel = ''ao0'', p_sampling_rate = 1000,
      p_initial_trigger_delay = 5, p_trigger = 1 / 4, p_interval = 3 / 4,
      p_infinite = True, p_nb_triggers = 5\<rparr>
     (41 / 8 + of_nat 3 * fadd (1 / 4) (3 / 4))
   = Inr (''Trigger (2V)'', Some (1 / 8))
   \<and> update_state_indicator_labels (Some 100)
       (Some \<lparr>p_device = ''Dev2'', p_channel = ''ao0'', p_sampling_rate = 1000,
              p_initial_trigger_delay = 5, p_trigger = 1 / 4, p_interval = 3 / 4,
              p_infinite = True, p_nb_triggers = 5\<rparr>)
       (841 / 8)
       \<lparr>state_label = ''Done'', time_label = None, time_total_label = None\<rparr>
     = update_state_indicator_labels (Some 0)
       (Some \<lparr>p_device = ''Dev2'', p_channel = ''ao0'', p_sampling_rate = 1000,
              p_initial_trigger_delay = 5, p_trigger = 1 / 4, p_interval = 3 / 4,
              p_infinite = True, p_nb_triggers = 5\<rparr>)
       (41 / 8)
       \<lparr>state_label = ''(0V)'', time_label = Some 1, time_total_label = Some 4\<rparr>"
proof -
  define p0 where "p0 =
     \<lparr>p_device = ''Dev2'', p_channel = ''ao0'', p_sampling_rate = 1000,
      p_initial_trigger_delay = 5, p_trigger = 1 / 4, p_interval = 3 / 4,
      p_infinite = True, p_nb_triggers = 5\<rparr>"
  define l1 where
    "l1 = \<lparr>state_label = ''Done'', time_label = None, time_total_label = None\<rparr>"
  define l2 where
    "l2 = \<lparr>state_label = ''(0V)'', time_label = Some 1, time_total_label = Some 4\<rparr>"
  have h: "0 < p_trigger p0" "0 \<le> p_interval p0"
    by (simp_all add: p0_def)
  have f: "p_infinite p0" "p_initial_trigger_delay p0 = 5" "p_trigger p0 = 1 / 4"
    "p_interval p0 = 3 / 4"
    by (simp_all add: p0_def)
  have r: "fadd (1 / 4) (3 / 4) = 1" "fsub (41 / 8) 5 = 1 / 8" "fsub (65 / 8) 5 = 25 / 8"
    "fsub (841 / 8) 100 = 41 / 8" "fsub (41 / 8) 0 = 41 / 8"
    by code_simp+
  have e: "update_state_indicator p0 (41 / 8) = Inr (''Trigger (2V)'', Some (1 / 8))"
    unfolding p0_def by code_simp
  have a: "update_state_indicator p0 (41 / 8 + of_nat 3 * fadd (1 / 4) (3 / 4))
      = Inr (''Trigger (2V)'', Some (1 / 8))"
    using indicator_pure_periodic [OF h, where elapsed = "41 / 8" and k = 3] e r
    by (simp add: f)
  have b: "update_state_indicator_labels (Some 100) (Some p0) (841 / 8) l1
      = update_state_indicator_labels (Some 0) (Some p0) (41 / 8) l2"
    using indicator_pure_periodic [OF h, where ?now1.0 = "841 / 8" and ?start1.0 = 100
        and ?now2.0 = "41 / 8" and ?start2.0 = 0 and ?labels1.0 = l1 and ?labels2.0 = l2] r
    by simp
  have "update_state_indicator p0 (41 / 8 + of_nat 3 * fadd (1 / 4) (3 / 4))
      = Inr (''Trigger (2V)'', Some (1 / 8))
      \<and> update_state_indicator_labels (Some 100) (Some p0) (841 / 8) l1
      = update_state_indicator_labels (Some 0) (Some p0) (41 / 8) l2"
    using a b by simp
  then show ?thesis
    unfolding p0_def l1_def l2_def .
qed

text \<open>
  The claim as stated fails: with a trigger of 0.1 s, an interval of 0.2 s and no initial
  delay, in infinite mode, the indicator shows "0V (interval)" at the elapsed time 0.1 and
  "Trigger (2V)" one cycle duration later, at 0.4, whether the cycle duration and the sum
  are taken exactly or in double precision.
\<close>

theorem infinite_not_periodic:
  "update_state_indicator
     \<lparr>p_device = ''Dev2'', p_channel = ''ao0'', p_sampling_rate = 1000,
      p_initial_trigger_delay = 0, p_trigger = fl (1 / 10), p_interval = fl (2 / 10),
      p_infinite = True, p_nb_triggers = 5\<rparr>
     (fl (1 / 10)) = Inr (''0V (interval)'', Some (7205759403792795 / 2 ^ 55))
   \<and> update_state_indicator
     \<lparr>p_device = ''Dev2'', p_channel = ''ao0'', p_sampling_rate = 1000,
      p_initial_trigger_delay = 0, p_trigger = fl (1 / 10), p_interval = fl (2 / 10),
      p_infinite = True, p_nb_triggers = 5\<rparr>
     (fl (1 / 10) + of_nat 1 * (fl (1 / 10) + fl (2 / 10)))
       = Inr (''Trigger (2V)'', Some (1 / 2 ^ 55))
   \<and> update_state_indicator
     \<lparr>p_device = ''Dev2'', p_channel = ''ao0'', p_sampling_rate = 1000,
      p_initial_trigger_delay = 0, p_trigger = fl (1 / 10), p_interval = fl (2 / 10),
      p_infinite = True, p_nb_triggers = 5\<rparr>
     (fl (1 / 10) + of_nat 1 * fadd (fl (1 / 10)) (fl (2 / 10)))
       = Inr (''Trigger (2V)'', Some (1 / 2 ^ 55))
   \<and> update_state_indicator
     \<lparr>p_device = ''Dev2'', p_channel = ''ao0'', p_sampling_rate = 1000,
      p_initial_trigger_delay = 0, p_trigger = fl (1 / 10), p_interval = fl (2 / 10),
      p_infinite = True, p_nb_triggers = 5\<rparr>
     (fadd (fl (1 / 10)) (fmul (float_of_int 1) (fadd (fl (1 / 10)) (fl (2 / 10)))))
       = Inr (''Trigger (2V)'', Some (1 / 2 ^ 55))
   \<and> 0 \<le> fl (1 / 10)"
  by code_simp

end
